theory Spec2Isabelle
  imports Complex_Main "HOL-Library.Word" "HOL-Library.Multiset"
begin

unbundle bit_operations_syntax

section \<open>JavaScript values and errors\<close>

text \<open>
  The memory server is a JavaScript program (\<^verbatim>\<open>index.js\<close>). Its numbers are idealised
  as reals (no rounding, no NaN), its integers (row ids, millisecond timestamps) as
  \<open>int\<close>, its counts (limits, dimensions, lengths) as \<open>nat\<close>. Text is an Isabelle
  \<open>string\<close>, so a character is one of the 256 Latin-1 code units.
\<close>

datatype jsval =
    JUndefined
  | JNull
  | JString string
  | JNumber real
  | JObject

text \<open>JavaScript truthiness, as used by \<^verbatim>\<open>if (x)\<close> and \<^verbatim>\<open>!x\<close>.\<close>

fun truthy :: "jsval \<Rightarrow> bool" where
  "truthy JUndefined = False"
| "truthy JNull = False"
| "truthy (JString s) = (s \<noteq> [])"
| "truthy (JNumber x) = (x \<noteq> 0)"
| "truthy JObject = True"

datatype js_error =
    TypeError
  | RangeError
  | Error string

section \<open>Fingerprint generator: \<^verbatim>\<open>createEmbedding\<close>\<close>

text \<open>
  \<^verbatim>\<open>String.prototype.toLowerCase\<close> on Latin-1 text: the ASCII capitals and the
  capitals U+00C0..U+00DE (without the multiplication sign U+00D7) move up by 32.
\<close>

definition lower_code :: "nat \<Rightarrow> nat" where
  "lower_code n =
     (if (65 \<le> n \<and> n \<le> 90) \<or> (192 \<le> n \<and> n \<le> 222 \<and> n \<noteq> 215) then n + 32 else n)"

definition toLowerCase :: "string \<Rightarrow> string" where
  "toLowerCase s = map (\<lambda>c. char_of (lower_code (of_char c))) s"

text \<open>\<^verbatim>\<open>String.prototype.trim\<close>: white space and line terminators of the Latin-1 range.\<close>

definition is_space :: "char \<Rightarrow> bool" where
  "is_space c = ((of_char c :: nat) \<in> {9, 10, 11, 12, 13, 32, 160})"

definition trim :: "string \<Rightarrow> string" where
  "trim s = rev (dropWhile is_space (rev (dropWhile is_space s)))"

text \<open>
  The inner loop of \<^verbatim>\<open>createEmbedding\<close>: for output dimension \<open>i\<close>, the sum over the
  characters \<open>j\<close> of \<^verbatim>\<open>Math.sin(charCode * (i + 1) * 0.01) * Math.cos(j * 0.01)\<close>.
\<close>

definition embedding_term :: "string \<Rightarrow> nat \<Rightarrow> nat \<Rightarrow> real" where
  "embedding_term normalizedText i j =
     sin (real (of_char (normalizedText ! j) :: nat) * real (i + 1) * 0.01) * cos (real j * 0.01)"

definition embedding_value :: "string \<Rightarrow> nat \<Rightarrow> real" where
  "embedding_value normalizedText i =
     foldl (\<lambda>v j. v + embedding_term normalizedText i j) 0 [0..<length normalizedText]"

text \<open>
  The body of the \<^verbatim>\<open>try\<close> block. \<^verbatim>\<open>text.toLowerCase()\<close> is a TypeError on anything that
  is not a string; for a string every dimension gets \<^verbatim>\<open>Math.tanh(value)\<close>.
\<close>

fun createEmbedding_try :: "jsval \<Rightarrow> nat \<Rightarrow> js_error + real list" where
  "createEmbedding_try (JString text) dimensions =
     (let normalizedText = trim (toLowerCase text)
      in Inr (map (\<lambda>i. tanh (embedding_value normalizedText i)) [0..<dimensions]))"
| "createEmbedding_try _ dimensions = Inl TypeError"

text \<open>
  \<^verbatim>\<open>createEmbedding\<close> itself: the \<^verbatim>\<open>catch\<close> branch returns the zero vector
  \<^verbatim>\<open>new Float32Array(dimensions)\<close>. \<open>Inl\<close> would be a rejected promise.
\<close>

definition createEmbedding :: "jsval \<Rightarrow> nat \<Rightarrow> js_error + real list" where
  "createEmbedding text dimensions =
     (case createEmbedding_try text dimensions of
        Inr vector \<Rightarrow> Inr vector
      | Inl error \<Rightarrow> Inr (replicate dimensions 0))"

section \<open>Binary vector encoding: \<^verbatim>\<open>vectorToBuffer\<close> and \<^verbatim>\<open>bufferToVector\<close>\<close>

text \<open>
  A float32 element is its 32-bit pattern. A typed array (a \<^verbatim>\<open>Float32Array\<close>, or a Node
  \<^verbatim>\<open>Buffer\<close>, which is a \<^verbatim>\<open>Uint8Array\<close>) is a view on an \<^verbatim>\<open>ArrayBuffer\<close>: the bytes of
  the buffer, the offset of the view and its number of elements.
\<close>

type_synonym byte = "8 word"
type_synonym float32 = "32 word"

record typed_array =
  buffer :: "byte list"
  byteOffset :: nat
  elems :: nat

text \<open>The four bytes of an element, least significant first, and back.\<close>

definition le_bytes :: "float32 \<Rightarrow> byte list" where
  "le_bytes w = [ucast w, ucast (drop_bit 8 w), ucast (drop_bit 16 w), ucast (drop_bit 24 w)]"

fun le_word :: "byte list \<Rightarrow> float32" where
  "le_word [b0, b1, b2, b3] =
     ucast b0 OR push_bit 8 (ucast b1) OR push_bit 16 (ucast b2) OR push_bit 24 (ucast b3)"
| "le_word _ = 0"

text \<open>
  \<^verbatim>\<open>new Float32Array(n)\<close> and \<^verbatim>\<open>new Float32Array(array)\<close> allocate a buffer of their own:
  this is how every vector of the program is made.
\<close>

definition Float32Array_of :: "float32 list \<Rightarrow> typed_array" where
  "Float32Array_of xs = \<lparr>buffer = concat (map le_bytes xs), byteOffset = 0, elems = length xs\<rparr>"

text \<open>Reading the elements of a \<^verbatim>\<open>Float32Array\<close> view.\<close>

definition float32_elements :: "typed_array \<Rightarrow> float32 list" where
  "float32_elements v =
     map (\<lambda>i. le_word (take 4 (drop (byteOffset v + 4 * i) (buffer v)))) [0..<elems v]"

text \<open>\<^verbatim>\<open>Buffer.from(vector.buffer)\<close>: a byte view on the whole \<^verbatim>\<open>ArrayBuffer\<close> of the vector.\<close>

definition vectorToBuffer :: "typed_array \<Rightarrow> typed_array" where
  "vectorToBuffer vector =
     \<lparr>buffer = buffer vector, byteOffset = 0, elems = length (buffer vector)\<rparr>"

text \<open>
  The bytes that a \<^verbatim>\<open>Buffer\<close> passed as a statement parameter writes into a BLOB column.
\<close>

definition buffer_bytes :: "typed_array \<Rightarrow> byte list" where
  "buffer_bytes b = take (elems b) (drop (byteOffset b) (buffer b))"

text \<open>
  The values that \<^verbatim>\<open>bufferToVector\<close> is called with: a Node \<^verbatim>\<open>Buffer\<close>, as
  \<^verbatim>\<open>vectorToBuffer\<close> makes it, or a plain \<^verbatim>\<open>ArrayBuffer\<close>, which is how the database
  client (\<^verbatim>\<open>@libsql/client\<close>, whose rows the \<^verbatim>\<open>Statement\<close> wrapper hands on unchanged)
  returns a BLOB column.
\<close>

datatype blob = NodeBuffer typed_array | ArrayBuffer "byte list"

text \<open>
  \<^verbatim>\<open>new Float32Array(buffer.buffer, buffer.byteOffset, buffer.length / 4)\<close>. On a
  \<^verbatim>\<open>Buffer\<close>: a RangeError when the offset is not a multiple of 4 or the view would pass
  the end of the buffer; a fractional length is truncated. An \<^verbatim>\<open>ArrayBuffer\<close> has none of
  the three properties, so the call is \<^verbatim>\<open>new Float32Array(undefined, undefined, NaN)\<close>,
  which makes the empty array whatever the bytes are.
\<close>

fun bufferToVector :: "blob \<Rightarrow> js_error + typed_array" where
  "bufferToVector (NodeBuffer b) =
     (if byteOffset b mod 4 \<noteq> 0 then Inl RangeError
      else if length (buffer b) < byteOffset b + 4 * (elems b div 4) then Inl RangeError
      else Inr \<lparr>buffer = buffer b, byteOffset = byteOffset b, elems = elems b div 4\<rparr>)"
| "bufferToVector (ArrayBuffer bytes) = Inr \<lparr>buffer = [], byteOffset = 0, elems = 0\<rparr>"

section \<open>Cosine similarity\<close>

text \<open>
  The arithmetic of the program reads a vector as the list of its element values.
\<close>

type_synonym vec = "real list"

text \<open>
  The number that a float32 pattern stands for (IEEE 754 binary32: a sign bit, 8 bits of
  exponent, 23 bits of fraction). The patterns of exponent 255, the infinities and NaN,
  are no real numbers; they get the value of the formula.
\<close>

definition float32_value :: "float32 \<Rightarrow> real" where
  "float32_value w =
     (let fraction = real (unat (take_bit 23 w));
          exponent = unat (take_bit 8 (drop_bit 23 w));
          magnitude = (if exponent = 0 then fraction * 2 powr (- 149)
                       else (2 ^ 23 + fraction) * 2 powr (real exponent - 150))
      in if bit w 31 then - magnitude else magnitude)"

text \<open>The numbers that indexing a \<^verbatim>\<open>Float32Array\<close> reads.\<close>

definition vector_values :: "typed_array \<Rightarrow> vec" where
  "vector_values v = map float32_value (float32_elements v)"

text \<open>
  The accumulation loop of \<^verbatim>\<open>cosineSimilarity\<close>: one pass over the indices that adds to
  \<^verbatim>\<open>dotProduct\<close>, \<^verbatim>\<open>normA\<close> and \<^verbatim>\<open>normB\<close>.
\<close>

fun cosine_loop :: "vec \<Rightarrow> vec \<Rightarrow> real \<times> real \<times> real \<Rightarrow> real \<times> real \<times> real" where
  "cosine_loop (x # xs) (y # ys) (dotProduct, normA, normB) =
     cosine_loop xs ys (dotProduct + x * y, normA + x * x, normB + y * y)"
| "cosine_loop _ _ acc = acc"

definition cosineSimilarity :: "vec \<Rightarrow> vec \<Rightarrow> real" where
  "cosineSimilarity a b =
     (if length a \<noteq> length b then 0
      else (case cosine_loop a b (0, 0, 0) of
              (dotProduct, normA, normB) \<Rightarrow>
                if sqrt normA = 0 \<or> sqrt normB = 0 then 0
                else dotProduct / (sqrt normA * sqrt normB)))"

section \<open>The database\<close>

text \<open>
  The tables of \<^verbatim>\<open>initializeDatabase\<close>, each a list of rows in storage order, with the
  columns the modelled queries read. A column holds the value the handlers write
  (\<^verbatim>\<open>Date.now()\<close> for a timestamp, the importance string of the request).
\<close>

record message_row =
  m_id :: int
  m_role :: string
  m_content :: string
  m_created_at :: int
  m_importance :: string

record active_file_row =
  af_id :: int
  af_filename :: string
  af_last_accessed :: int

record milestone_row =
  ms_id :: int
  ms_title :: string
  ms_description :: string
  ms_importance :: string
  ms_created_at :: int

record decision_row =
  dc_id :: int
  dc_title :: string
  dc_content :: string
  dc_reasoning :: string
  dc_importance :: string
  dc_created_at :: int

record requirement_row =
  rq_id :: int
  rq_title :: string
  rq_content :: string
  rq_importance :: string
  rq_created_at :: int

record episode_row =
  ep_id :: int
  ep_actor :: string
  ep_action :: string
  ep_content :: string
  ep_timestamp :: int
  ep_importance :: string
  ep_context :: string

record vector_row =
  v_id :: int
  v_content_id :: int
  v_content_type :: string
  v_vector :: "byte list"
  v_created_at :: int
  v_metadata :: "string option"

record code_file_row =
  cf_id :: int
  cf_file_path :: string
  cf_language :: string
  cf_last_indexed :: int

record code_snippet_row =
  cs_id :: int
  cs_file_id :: int
  cs_start_line :: int
  cs_end_line :: int
  cs_content :: string
  cs_symbol_type :: string

text \<open>
  The column \<open>v_vector\<close> holds the bytes of the BLOB. \<open>vector_index\<close> says whether the
  index \<^verbatim>\<open>idx_vectors_vector\<close> exists; \<open>vector_capable\<close> whether the engine can create it;
  \<open>vectors_seq\<close> is the last row id that AUTOINCREMENT handed out for \<^verbatim>\<open>vectors\<close>.

  The table function \<^verbatim>\<open>vector_top_k\<close> belongs to the database engine, not to this
  repository. It is a parameter of the model, the field \<open>vector_top_k\<close>: for the stored
  rows, the query vector and \<open>k\<close> it fails, or yields candidates in the engine's order,
  each a row id with the value that the query reads as \<^verbatim>\<open>similarity\<close>. Nothing is assumed
  of it: no order, no bound on the number of candidates, no relation of the score to
  \<^verbatim>\<open>cosineSimilarity\<close>.
\<close>

record database =
  messages :: "message_row list"
  active_files :: "active_file_row list"
  milestones :: "milestone_row list"
  decisions :: "decision_row list"
  requirements :: "requirement_row list"
  episodes :: "episode_row list"
  vectors :: "vector_row list"
  code_files :: "code_file_row list"
  code_snippets :: "code_snippet_row list"
  vectors_seq :: int
  vector_index :: bool
  vector_capable :: bool
  vector_top_k :: "vector_row list \<Rightarrow> vec \<Rightarrow> int \<Rightarrow> js_error + (int \<times> real) list"

text \<open>
  The two globals of the module: \<^verbatim>\<open>db\<close> (\<open>None\<close> is \<^verbatim>\<open>null\<close>) and \<^verbatim>\<open>useInMemory\<close>.
  Statements on an open database succeed.
\<close>

record server_state =
  db :: "database option"
  useInMemory :: bool

text \<open>\<^verbatim>\<open>ORDER BY key DESC\<close>, and \<^verbatim>\<open>Array.prototype.sort\<close> with \<^verbatim>\<open>(a, b) => key(b) - key(a)\<close>:
  a stable sort, greatest key first.\<close>

definition sort_desc :: "('a \<Rightarrow> 'k::{linorder, uminus}) \<Rightarrow> 'a list \<Rightarrow> 'a list" where
  "sort_desc key xs = sort_key (\<lambda>x. - key x) xs"

text \<open>A content-type argument filters only when it is truthy (a non-empty string).\<close>

fun given :: "string option \<Rightarrow> bool" where
  "given None = False"
| "given (Some t) = (t \<noteq> [])"

section \<open>Similarity search: \<^verbatim>\<open>findSimilarVectors\<close>\<close>

text \<open>
  A result row. The index query selects \<^verbatim>\<open>id, content_id, content_type, similarity\<close>;
  the fallback spreads the scanned row, so its results carry the \<^verbatim>\<open>vector\<close> column too.
\<close>

record similar_row =
  r_id :: int
  r_content_id :: int
  r_content_type :: string
  r_vector :: "byte list option"
  r_similarity :: real

text \<open>
  \<^verbatim>\<open>LIMIT n\<close> of SQLite, where a negative \<open>n\<close> is no limit, and \<^verbatim>\<open>slice(0, n)\<close> of an
  array, where a negative \<open>n\<close> counts from the end. The limit is a number of the caller:
  \<^verbatim>\<open>manageVector\<close> passes \<^verbatim>\<open>args.limit\<close> on as it is.
\<close>

definition sql_limit :: "int \<Rightarrow> 'a list \<Rightarrow> 'a list" where
  "sql_limit n xs = (if n < 0 then xs else take (nat n) xs)"

definition slice0 :: "int \<Rightarrow> 'a list \<Rightarrow> 'a list" where
  "slice0 n xs = (if n < 0 then take (length xs - nat (- n)) xs else take (nat n) xs)"

text \<open>
  \<^verbatim>\<open>WHERE content_type = ?\<close>, which both queries add only for a truthy content type.
\<close>

definition type_ok :: "string option \<Rightarrow> vector_row \<Rightarrow> bool" where
  "type_ok contentType row =
     (if given contentType then Some (v_content_type row) = contentType else True)"

text \<open>
  The index-accelerated query: the candidates of \<^verbatim>\<open>vector_top_k\<close> for \<^verbatim>\<open>limit * 2\<close>,
  joined with \<^verbatim>\<open>vectors\<close> on the row id, \<^verbatim>\<open>WHERE content_type = ? AND similarity >= ?\<close>
  (the first condition only with a content type), \<^verbatim>\<open>LIMIT limit\<close>. There is no
  \<^verbatim>\<open>ORDER BY\<close>: the rows come in the order of the candidates. The query fails when the
  index does not exist or the engine's function fails.
\<close>

definition index_search ::
  "database \<Rightarrow> vec \<Rightarrow> string option \<Rightarrow> int \<Rightarrow> real \<Rightarrow> js_error + similar_row list" where
  "index_search d queryVector contentType limit threshold =
     (if \<not> vector_index d then Inl (Error ''no such index: idx_vectors_vector'')
      else (case vector_top_k d (vectors d) queryVector (limit * 2) of
              Inl vectorError \<Rightarrow> Inl vectorError
            | Inr candidates \<Rightarrow>
                Inr (map (\<lambda>(row, similarity).
                            \<lparr>r_id = v_id row, r_content_id = v_content_id row,
                             r_content_type = v_content_type row, r_vector = None,
                             r_similarity = similarity\<rparr>)
                      (sql_limit limit
                        (filter (\<lambda>(row, similarity).
                                   type_ok contentType row \<and> similarity \<ge> threshold)
                          (concat (map (\<lambda>(rowid, similarity).
                                          map (\<lambda>row. (row, similarity))
                                            (filter (\<lambda>row. v_id row = rowid) (vectors d)))
                                     candidates)))))))"

text \<open>
  \<^verbatim>\<open>bufferToVector(row.vector)\<close> on a row that a \<^verbatim>\<open>SELECT\<close> returned: the client hands
  the BLOB over as an \<^verbatim>\<open>ArrayBuffer\<close>.
\<close>

definition storedVector :: "vector_row \<Rightarrow> js_error + vec" where
  "storedVector row = map_sum id vector_values (bufferToVector (ArrayBuffer (v_vector row)))"

text \<open>
  The rows of a query, each with its decoded vector; the first decoding that throws ends
  the loop.
\<close>

fun decode_rows :: "vector_row list \<Rightarrow> js_error + (vector_row \<times> vec) list" where
  "decode_rows [] = Inr []"
| "decode_rows (row # rows) =
     (case storedVector row of
        Inl error \<Rightarrow> Inl error
      | Inr v \<Rightarrow>
          (case decode_rows rows of
             Inl error \<Rightarrow> Inl error
           | Inr decoded \<Rightarrow> Inr ((row, v) # decoded)))"

text \<open>
  The fallback of the \<^verbatim>\<open>catch\<close>: scan \<^verbatim>\<open>vectors\<close> (of the content type, if one is given),
  decode each vector and compute its similarity, filter by the threshold, sort,
  \<^verbatim>\<open>slice(0, limit)\<close>.
\<close>

definition full_scan ::
  "database \<Rightarrow> vec \<Rightarrow> string option \<Rightarrow> int \<Rightarrow> real \<Rightarrow> js_error + similar_row list" where
  "full_scan d queryVector contentType limit threshold =
     (let allVectors = filter (type_ok contentType) (vectors d)
      in (case decode_rows allVectors of
            Inl error \<Rightarrow> Inl error
          | Inr decoded \<Rightarrow>
              (let withSimilarity = map (\<lambda>(row, storedVector).
                         \<lparr>r_id = v_id row, r_content_id = v_content_id row,
                          r_content_type = v_content_type row, r_vector = Some (v_vector row),
                          r_similarity = cosineSimilarity queryVector storedVector\<rparr>)
                       decoded
               in Inr (slice0 limit (sort_desc r_similarity
                         (filter (\<lambda>row. r_similarity row \<ge> threshold) withSimilarity))))))"

text \<open>
  \<^verbatim>\<open>findSimilarVectors\<close>: the index query, and the full scan when that fails; without a
  database, or when the scan throws, the outer \<^verbatim>\<open>catch\<close> returns the empty list.
\<close>

definition findSimilarVectors ::
  "server_state \<Rightarrow> vec \<Rightarrow> string option \<Rightarrow> int \<Rightarrow> real \<Rightarrow> similar_row list" where
  "findSimilarVectors s queryVector contentType limit threshold =
     (case db s of
        None \<Rightarrow> []
      | Some d \<Rightarrow>
          (case index_search d queryVector contentType limit threshold of
             Inr results \<Rightarrow> results
           | Inl vectorError \<Rightarrow>
               (case full_scan d queryVector contentType limit threshold of
                  Inr results \<Rightarrow> results
                | Inl error \<Rightarrow> [])))"

section \<open>Relevance scorer: \<^verbatim>\<open>scoreItemsByRelevance\<close>\<close>

text \<open>
  The \<^verbatim>\<open>relevance\<close> property of an item: absent on a row as selected, a number once
  scored, \<^verbatim>\<open>null\<close> in the snapshot when there is no score.
\<close>

datatype relevance = Absent | Null | Rel real

record 'a item =
  item_id :: int
  item_row :: 'a
  relevance :: relevance

text \<open>The number read from \<^verbatim>\<open>item.relevance\<close> on a scored item.\<close>

definition rel_of :: "'a item \<Rightarrow> real" where
  "rel_of it = (case relevance it of Rel r \<Rightarrow> r | _ \<Rightarrow> 0)"

text \<open>
  \<^verbatim>\<open>vectorMap\<close>: \<^verbatim>\<open>vectors.forEach(v => vectorMap.set(v.content_id, bufferToVector(v.vector)))\<close>,
  here on the rows with their decoded vectors; a later row overwrites an earlier one with
  the same content id.
\<close>

definition vectorMap_of :: "(vector_row \<times> vec) list \<Rightarrow> (int \<rightharpoonup> vec)" where
  "vectorMap_of decoded = fold (\<lambda>(v, itemVector) m. m(v_content_id v \<mapsto> itemVector)) decoded Map.empty"

text \<open>
  \<^verbatim>\<open>WHERE content_type = ?\<close>, and \<^verbatim>\<open>WHERE content_type = ? OR content_type = ?\<close> for a
  truthy secondary type.
\<close>

definition of_types :: "string \<Rightarrow> string option \<Rightarrow> vector_row \<Rightarrow> bool" where
  "of_types primaryType secondaryType v =
     (v_content_type v = primaryType
      \<or> (given secondaryType \<and> Some (v_content_type v) = secondaryType))"

text \<open>
  \<^verbatim>\<open>scoreItemsByRelevance(items, queryVector, primaryType, secondaryType, threshold)\<close>.
  An empty list or a missing query vector returns the items as they are, and so does
  the \<^verbatim>\<open>catch\<close> (no database, or a decoding that throws).
\<close>

definition scoreItemsByRelevance ::
  "server_state \<Rightarrow> 'a item list \<Rightarrow> vec option \<Rightarrow> string \<Rightarrow> string option \<Rightarrow> real \<Rightarrow> 'a item list" where
  "scoreItemsByRelevance s items queryVector primaryType secondaryType threshold =
     (case queryVector of
        None \<Rightarrow> items
      | Some qv \<Rightarrow>
          if items = [] then items
          else (case db s of
                  None \<Rightarrow> items
                | Some d \<Rightarrow>
                    (case decode_rows (filter (of_types primaryType secondaryType) (vectors d)) of
                       Inl error \<Rightarrow> items
                     | Inr decoded \<Rightarrow>
                         (let vectorMap = vectorMap_of decoded;
                              scoredItems = map (\<lambda>it. it\<lparr>relevance :=
                                              Rel (case vectorMap (item_id it) of
                                                     Some itemVector \<Rightarrow> cosineSimilarity qv itemVector
                                                   | None \<Rightarrow> 0)\<rparr>) items
                          in sort_desc rel_of
                               (filter (\<lambda>it. rel_of it \<ge> threshold) scoredItems)))))"

section \<open>Context assembler: \<^verbatim>\<open>getComprehensiveContext\<close>\<close>

text \<open>The rows of a \<^verbatim>\<open>SELECT\<close> as items: no \<^verbatim>\<open>relevance\<close> property yet.\<close>

definition as_items :: "('a \<Rightarrow> int) \<Rightarrow> 'a list \<Rightarrow> 'a item list" where
  "as_items row_id rows = map (\<lambda>r. \<lparr>item_id = row_id r, item_row = r, relevance = Absent\<rparr>) rows"

text \<open>\<^verbatim>\<open>relevance: x.relevance || null\<close>: a missing score and the score 0 both give \<^verbatim>\<open>null\<close>.\<close>

fun or_null :: "relevance \<Rightarrow> relevance" where
  "or_null (Rel r) = (if r = 0 then Null else Rel r)"
| "or_null _ = Null"

text \<open>
  The final \<^verbatim>\<open>map\<close> of each partition. The timestamp is kept as its millisecond value
  (the source prints it with \<^verbatim>\<open>toISOString\<close>).
\<close>

definition snapshot_items :: "'a item list \<Rightarrow> 'a item list" where
  "snapshot_items items = map (\<lambda>it. it\<lparr>relevance := or_null (relevance it)\<rparr>) items"

text \<open>
  One partition list: with a query vector the scorer (default threshold 0.5) and the
  \<open>n\<close> most relevant, without one the first \<open>n\<close> of the rows as selected.
\<close>

definition pick :: "server_state \<Rightarrow> 'a item list \<Rightarrow> vec option \<Rightarrow> string \<Rightarrow> string option \<Rightarrow> nat \<Rightarrow> 'a item list" where
  "pick s items queryVector primaryType secondaryType n =
     (case queryVector of
        Some qv \<Rightarrow> take n (scoreItemsByRelevance s items (Some qv) primaryType secondaryType 0.5)
      | None \<Rightarrow> take n items)"

text \<open>The six \<^verbatim>\<open>SELECT ... ORDER BY ... DESC LIMIT ...\<close> queries.\<close>

definition important :: "string \<Rightarrow> bool" where
  "important importance = (importance \<in> {''high'', ''medium'', ''critical''})"

definition select_messages :: "database \<Rightarrow> message_row list" where
  "select_messages d = take 15 (sort_desc m_created_at (messages d))"

definition select_files :: "database \<Rightarrow> active_file_row list" where
  "select_files d = take 10 (sort_desc af_last_accessed (active_files d))"

definition select_milestones :: "database \<Rightarrow> milestone_row list" where
  "select_milestones d = take 10 (sort_desc ms_created_at (milestones d))"

definition select_decisions :: "database \<Rightarrow> decision_row list" where
  "select_decisions d =
     take 10 (sort_desc dc_created_at (filter (\<lambda>r. important (dc_importance r)) (decisions d)))"

definition select_requirements :: "database \<Rightarrow> requirement_row list" where
  "select_requirements d =
     take 10 (sort_desc rq_created_at (filter (\<lambda>r. important (rq_importance r)) (requirements d)))"

definition select_episodes :: "database \<Rightarrow> episode_row list" where
  "select_episodes d = take 15 (sort_desc ep_timestamp (episodes d))"

text \<open>
  An entry of the semantic partition: the hit of the similarity search and, when the
  owning row is found, its details.
\<close>

datatype item_details =
    MessageDetails string string int string
  | FileDetails string string int
  | SnippetDetails string string int int string

record similar_item =
  si_id :: int
  si_type :: string
  si_similarity :: real
  si_details :: "item_details option"

definition details_of :: "database \<Rightarrow> similar_row \<Rightarrow> item_details option" where
  "details_of d v =
     (if r_content_type v = ''user_message'' \<or> r_content_type v = ''assistant_message'' then
        map_option (\<lambda>m. MessageDetails (m_role m) (m_content m) (m_created_at m) (m_importance m))
          (find (\<lambda>m. m_id m = r_content_id v) (messages d))
      else if r_content_type v = ''code_file'' then
        map_option (\<lambda>f. FileDetails (cf_file_path f) (cf_language f) (cf_last_indexed f))
          (find (\<lambda>f. cf_id f = r_content_id v) (code_files d))
      else if r_content_type v = ''code_snippet'' then
        map_option (\<lambda>(c, f). SnippetDetails (cs_content c) (cf_file_path f) (cs_start_line c)
                               (cs_end_line c) (cs_symbol_type c))
          (find (\<lambda>(c, f). cs_id c = r_content_id v)
             (concat (map (\<lambda>c. map (\<lambda>f. (c, f))
                                 (filter (\<lambda>f. cf_id f = cs_file_id c) (code_files d)))
                        (code_snippets d))))
      else None)"

text \<open>\<^verbatim>\<open>findSimilarItems(queryVector, contentType, alternativeType, limit, threshold)\<close>.\<close>

definition findSimilarItems ::
  "server_state \<Rightarrow> vec \<Rightarrow> string \<Rightarrow> string option \<Rightarrow> int \<Rightarrow> real \<Rightarrow> similar_item list" where
  "findSimilarItems s queryVector contentType alternativeType limit threshold =
     (let similarVectors =
            (if given alternativeType then
               slice0 limit (sort_desc r_similarity
                 (findSimilarVectors s queryVector (Some contentType) limit threshold
                  @ findSimilarVectors s queryVector alternativeType limit threshold))
             else findSimilarVectors s queryVector (Some contentType) limit threshold)
      in (case db s of
            None \<Rightarrow> []
          | Some d \<Rightarrow>
              map (\<lambda>v. \<lparr>si_id = r_content_id v, si_type = r_content_type v,
                        si_similarity = r_similarity v, si_details = details_of d v\<rparr>)
                similarVectors))"

text \<open>
  \<^verbatim>\<open>groupSimilarSnippetsByFile\<close>: the groups of a \<^verbatim>\<open>Map\<close> keyed by \<^verbatim>\<open>file_path\<close>, in
  insertion order, each with the greatest similarity of its snippets, then sorted.
\<close>

record snippet_group =
  g_file_path :: "string option"
  g_relevance :: real
  g_snippets :: "similar_item list"

fun file_path_of :: "similar_item \<Rightarrow> string option" where
  "file_path_of sn =
     (case si_details sn of Some (SnippetDetails c p a b t) \<Rightarrow> Some p | _ \<Rightarrow> None)"

fun add_snippet :: "similar_item \<Rightarrow> snippet_group list \<Rightarrow> snippet_group list" where
  "add_snippet sn [] =
     [\<lparr>g_file_path = file_path_of sn, g_relevance = si_similarity sn, g_snippets = [sn]\<rparr>]"
| "add_snippet sn (g # gs) =
     (if g_file_path g = file_path_of sn then
        g\<lparr>g_snippets := g_snippets g @ [sn],
          g_relevance := (if si_similarity sn > g_relevance g then si_similarity sn
                          else g_relevance g)\<rparr> # gs
      else g # add_snippet sn gs)"

definition groupSimilarSnippetsByFile :: "similar_item list \<Rightarrow> snippet_group list" where
  "groupSimilarSnippetsByFile snippets =
     (if snippets = [] then [] else sort_desc g_relevance (fold add_snippet snippets []))"

text \<open>The snapshot. A partition that was never assigned (\<^verbatim>\<open>{}\<close>) is \<open>None\<close>.\<close>

record short_term =
  recentMessages :: "message_row item list"
  activeFiles :: "active_file_row item list"

record long_term =
  lt_milestones :: "milestone_row item list"
  lt_decisions :: "decision_row item list"
  lt_requirements :: "requirement_row item list"

record episodic_part =
  recentEpisodes :: "episode_row item list"

datatype semantic_part =
    SemanticEmpty
  | Semantic "similar_item list" "similar_item list" "snippet_group list"

record snapshot =
  shortTerm :: "short_term option"
  longTerm :: "long_term option"
  episodic :: "episodic_part option"
  semantic :: semantic_part
  healthy :: bool
  ctx_error :: "js_error option"

definition empty_context :: snapshot where
  "empty_context =
     \<lparr>shortTerm = None, longTerm = None, episodic = None, semantic = SemanticEmpty,
      healthy = True, ctx_error = None\<rparr>"

text \<open>
  \<^verbatim>\<open>getComprehensiveContext(userMessage)\<close>. The query vector is made once, for a truthy
  message. Without a database the first \<^verbatim>\<open>db.prepare\<close> is a TypeError, which the outer
  \<^verbatim>\<open>catch\<close> records in \<^verbatim>\<open>context.error\<close>.
\<close>

definition getComprehensiveContext :: "server_state \<Rightarrow> jsval \<Rightarrow> snapshot" where
  "getComprehensiveContext s userMessage =
     (case (if truthy userMessage then map_sum id Some (createEmbedding userMessage 128)
            else Inr None) of
        Inl error \<Rightarrow> empty_context\<lparr>ctx_error := Some error\<rparr>
      | Inr queryVector \<Rightarrow>
          (case db s of
             None \<Rightarrow> empty_context\<lparr>ctx_error := Some TypeError\<rparr>
           | Some d \<Rightarrow>
               empty_context
                 \<lparr>shortTerm := Some
                    \<lparr>recentMessages = snapshot_items
                       (pick s (as_items m_id (select_messages d)) queryVector
                          ''user_message'' (Some ''assistant_message'') 5),
                     activeFiles = snapshot_items
                       (pick s (as_items af_id (select_files d)) queryVector ''code_file'' None 5)\<rparr>,
                  longTerm := Some
                    \<lparr>lt_milestones = snapshot_items
                       (pick s (as_items ms_id (select_milestones d)) queryVector ''milestone'' None 3),
                     lt_decisions = snapshot_items
                       (pick s (as_items dc_id (select_decisions d)) queryVector ''decision'' None 3),
                     lt_requirements = snapshot_items
                       (pick s (as_items rq_id (select_requirements d)) queryVector
                          ''requirement'' None 3)\<rparr>,
                  episodic := Some
                    \<lparr>recentEpisodes = snapshot_items
                       (pick s (as_items ep_id (select_episodes d)) queryVector ''episode'' None 5)\<rparr>,
                  semantic :=
                    (case queryVector of
                       None \<Rightarrow> SemanticEmpty
                     | Some qv \<Rightarrow>
                         Semantic
                           (findSimilarItems s qv ''user_message'' (Some ''assistant_message'') 3 0.6)
                           (findSimilarItems s qv ''code_file'' None 2 0.6)
                           (groupSimilarSnippetsByFile
                              (findSimilarItems s qv ''code_snippet'' None 3 0.6)))\<rparr>))"

section \<open>The tool dispatcher and \<^verbatim>\<open>manageVector\<close>\<close>

text \<open>The messages of the errors that the modelled handlers throw.\<close>

datatype tool_error =
    NoArgumentsProvided  \<comment> \<open>\<^verbatim>\<open>No arguments provided\<close>\<close>
  | UnknownTool string  \<comment> \<open>\<^verbatim>\<open>Unknown tool: ${name}\<close>\<close>
  | OperationRequired  \<comment> \<open>\<^verbatim>\<open>Operation is required for manageVector tool\<close>\<close>
  | InMemoryMode  \<comment> \<open>\<^verbatim>\<open>Vector operations not supported in in-memory mode\<close>\<close>
  | StoreArgsRequired  \<comment> \<open>\<^verbatim>\<open>contentId, contentType, and vector are required for store operation\<close>\<close>
  | SearchVectorRequired  \<comment> \<open>\<^verbatim>\<open>Vector is required for search operation\<close>\<close>
  | UpdateArgsRequired  \<comment> \<open>\<^verbatim>\<open>vectorId and vector are required for update operation\<close>\<close>
  | DeleteArgsRequired  \<comment> \<open>\<^verbatim>\<open>vectorId is required for delete operation\<close>\<close>
  | VectorNotArray  \<comment> \<open>\<^verbatim>\<open>Vector must be provided as an array\<close>\<close>
  | VectorNotFound int  \<comment> \<open>\<^verbatim>\<open>Vector with ID ${vectorId} not found\<close>\<close>
  | UnknownOperation string  \<comment> \<open>\<^verbatim>\<open>Unknown operation: ${operation}. Supported operations are: ...\<close>\<close>
  | DatabaseNotInitialized  \<comment> \<open>\<^verbatim>\<open>Database not initialized\<close>\<close>
  | NullDatabase  \<comment> \<open>the TypeError of \<^verbatim>\<open>db.prepare\<close> on \<^verbatim>\<open>null\<close>\<close>

text \<open>The \<^verbatim>\<open>result\<close> objects of the modelled handlers.\<close>

datatype payload =
    StoreOk int string nat int  \<comment> \<open>contentId, contentType, vectorDimensions, timestamp\<close>
  | SearchOk "similar_row list"
  | UpdateOk int int string nat int  \<comment> \<open>vectorId, contentId, contentType, vectorDimensions, timestamp\<close>
  | DeleteOk int bool int  \<comment> \<open>vectorId, deleted, timestamp\<close>
  | ContextOk snapshot

text \<open>A tool response: the JSON text, with status \<^verbatim>\<open>ok\<close> or \<^verbatim>\<open>error\<close>, and \<^verbatim>\<open>isError\<close>.\<close>

datatype response_text = StatusOk payload | StatusError tool_error

record tool_result =
  text_of :: response_text
  isError :: bool

definition ok :: "payload \<Rightarrow> tool_result" where
  "ok p = \<lparr>text_of = StatusOk p, isError = False\<rparr>"

definition failed :: "tool_error \<Rightarrow> tool_result" where
  "failed e = \<lparr>text_of = StatusError e, isError = True\<rparr>"

text \<open>
  The \<^verbatim>\<open>vector\<close> argument: missing (falsy), an array of numbers, or something else. The
  numbers of the array are held as the float32 values that \<^verbatim>\<open>new Float32Array(vector)\<close>
  makes of them, the only use the program has for them.
\<close>

datatype vector_arg = NoVector | VectorArray "float32 list" | NotAnArray

text \<open>The properties of \<^verbatim>\<open>args\<close> that the modelled handlers read; \<open>None\<close> is \<^verbatim>\<open>undefined\<close>.\<close>

record tool_args =
  a_operation :: "string option"
  a_contentId :: "int option"
  a_contentType :: "string option"
  a_vector :: vector_arg
  a_metadata :: "string option"
  a_vectorId :: "int option"
  a_limit :: "int option"
  a_threshold :: "real option"
  a_query :: jsval

text \<open>\<^verbatim>\<open>!x\<close> on an optional number: \<^verbatim>\<open>undefined\<close> and 0 are falsy.\<close>

fun missing_id :: "int option \<Rightarrow> bool" where
  "missing_id None = True"
| "missing_id (Some n) = (n = 0)"

text \<open>
  \<^verbatim>\<open>storeEmbedding\<close>: one \<^verbatim>\<open>INSERT INTO vectors\<close>, with the next AUTOINCREMENT id; the
  BLOB is \<^verbatim>\<open>vectorToBuffer(vector)\<close>.
\<close>

definition storeEmbedding ::
  "server_state \<Rightarrow> int \<Rightarrow> int \<Rightarrow> string \<Rightarrow> typed_array \<Rightarrow> string option
   \<Rightarrow> tool_error + server_state" where
  "storeEmbedding s now contentId contentType vector metadata =
     (case db s of
        None \<Rightarrow> Inl DatabaseNotInitialized
      | Some d \<Rightarrow>
          (let vectorBuffer = vectorToBuffer vector
           in Inr (s\<lparr>db := Some (d\<lparr>vectors := vectors d @
                                    [\<lparr>v_id = vectors_seq d + 1, v_content_id = contentId,
                                      v_content_type = contentType,
                                      v_vector = buffer_bytes vectorBuffer,
                                      v_created_at = now, v_metadata = metadata\<rparr>],
                                  vectors_seq := vectors_seq d + 1\<rparr>)\<rparr>)))"

text \<open>
  The \<^verbatim>\<open>manageVector\<close> case of the dispatcher, \<open>now\<close> being \<^verbatim>\<open>Date.now()\<close>. Every
  \<^verbatim>\<open>throw\<close> in it is caught by the handler's own \<^verbatim>\<open>catch\<close>, which answers with the
  message and \<^verbatim>\<open>isError: true\<close>. An array argument becomes a \<^verbatim>\<open>Float32Array\<close> with
  \<^verbatim>\<open>new Float32Array(vector)\<close>.
\<close>

definition manageVector :: "server_state \<Rightarrow> int \<Rightarrow> tool_args \<Rightarrow> server_state \<times> tool_result" where
  "manageVector s now args =
     (if \<not> given (a_operation args) then (s, failed OperationRequired)
      else if useInMemory s then (s, failed InMemoryMode)
      else if a_operation args = Some ''store'' then
        (if missing_id (a_contentId args) \<or> \<not> given (a_contentType args) \<or> a_vector args = NoVector
         then (s, failed StoreArgsRequired)
         else (case a_vector args of
                 VectorArray vector \<Rightarrow>
                   (let vectorArray = Float32Array_of vector
                    in (case storeEmbedding s now (the (a_contentId args))
                                 (the (a_contentType args)) vectorArray (a_metadata args) of
                          Inl e \<Rightarrow> (s, failed e)
                        | Inr s' \<Rightarrow>
                            (s', ok (StoreOk (the (a_contentId args)) (the (a_contentType args))
                                       (elems vectorArray) now))))
               | _ \<Rightarrow> (s, failed VectorNotArray)))
      else if a_operation args = Some ''search'' then
        (case a_vector args of
           NoVector \<Rightarrow> (s, failed SearchVectorRequired)
         | NotAnArray \<Rightarrow> (s, failed VectorNotArray)
         | VectorArray vector \<Rightarrow>
             (let queryVector = Float32Array_of vector
              in (s, ok (SearchOk (findSimilarVectors s (vector_values queryVector)
                                     (a_contentType args)
                                     (case a_limit args of None \<Rightarrow> 10 | Some l \<Rightarrow> l)
                                     (case a_threshold args of None \<Rightarrow> 0.7 | Some t \<Rightarrow> t))))))
      else if a_operation args = Some ''update'' then
        (if missing_id (a_vectorId args) \<or> a_vector args = NoVector
         then (s, failed UpdateArgsRequired)
         else (case a_vector args of
                 VectorArray vector \<Rightarrow>
                   (let vectorArray = Float32Array_of vector
                    in (case db s of
                          None \<Rightarrow> (s, failed NullDatabase)
                        | Some d \<Rightarrow>
                            (case find (\<lambda>v. v_id v = the (a_vectorId args)) (vectors d) of
                               None \<Rightarrow> (s, failed (VectorNotFound (the (a_vectorId args))))
                             | Some existingVector \<Rightarrow>
                                 (let vectorBuffer = vectorToBuffer vectorArray
                                  in (s\<lparr>db := Some (d\<lparr>vectors :=
                                          map (\<lambda>v. if v_id v = the (a_vectorId args)
                                                   then v\<lparr>v_vector := buffer_bytes vectorBuffer,
                                                          v_metadata := a_metadata args,
                                                          v_created_at := now\<rparr>
                                                   else v) (vectors d)\<rparr>)\<rparr>,
                                      ok (UpdateOk (the (a_vectorId args))
                                            (v_content_id existingVector)
                                            (v_content_type existingVector)
                                            (elems vectorArray) now))))))
               | _ \<Rightarrow> (s, failed VectorNotArray)))
      else if a_operation args = Some ''delete'' then
        (if missing_id (a_vectorId args) then (s, failed DeleteArgsRequired)
         else (case db s of
                 None \<Rightarrow> (s, failed NullDatabase)
               | Some d \<Rightarrow>
                   (case find (\<lambda>v. v_id v = the (a_vectorId args)) (vectors d) of
                      None \<Rightarrow> (s, failed (VectorNotFound (the (a_vectorId args))))
                    | Some existingVector \<Rightarrow>
                        (s\<lparr>db := Some (d\<lparr>vectors :=
                             filter (\<lambda>v. v_id v \<noteq> the (a_vectorId args)) (vectors d)\<rparr>)\<rparr>,
                         ok (DeleteOk (the (a_vectorId args)) True now)))))
      else (s, failed (UnknownOperation (the (a_operation args)))))"

text \<open>The names of \<^verbatim>\<open>MEMORY_TOOLS\<close>, which the tool list advertises.\<close>

definition tool_names :: "string list" where
  "tool_names =
     [''generateBanner'', ''checkHealth'', ''initConversation'', ''endConversation'',
      ''storeUserMessage'', ''storeAssistantMessage'', ''trackActiveFile'',
      ''getRecentMessages'', ''getActiveFiles'', ''storeMilestone'', ''storeDecision'',
      ''storeRequirement'', ''recordEpisode'', ''getRecentEpisodes'',
      ''getComprehensiveContext'', ''getMemoryStats'', ''manageVector'']"

definition noArgsTools :: "string list" where
  "noArgsTools = [''generateBanner'', ''checkHealth'', ''getComprehensiveContext'', ''getMemoryStats'']"

text \<open>
  The \<^verbatim>\<open>case\<close> labels of the dispatcher's \<^verbatim>\<open>switch\<close> whose bodies are not modelled here;
  they are a parameter \<open>other\<close> of the dispatcher.
\<close>

definition other_cases :: "string list" where
  "other_cases =
     [''generateBanner'', ''checkHealth'', ''initConversation'', ''storeUserMessage'',
      ''trackActiveFile'', ''getRecentMessages'', ''getActiveFiles'', ''storeMilestone'',
      ''storeDecision'', ''storeRequirement'', ''recordEpisode'', ''getRecentEpisodes'',
      ''getMemoryStats'', ''endConversation'']"

text \<open>
  The handler of a tool call: the guard on missing arguments (its \<^verbatim>\<open>throw\<close> is answered
  by the outer \<^verbatim>\<open>catch\<close>), then the \<^verbatim>\<open>switch\<close> on the tool name with its \<^verbatim>\<open>default\<close>.
\<close>

definition call_tool ::
  "(string \<Rightarrow> server_state \<Rightarrow> tool_args option \<Rightarrow> server_state \<times> tool_result)
   \<Rightarrow> server_state \<Rightarrow> int \<Rightarrow> string \<Rightarrow> tool_args option \<Rightarrow> server_state \<times> tool_result" where
  "call_tool other s now name args =
     (if args = None \<and> name \<notin> set noArgsTools then (s, failed NoArgumentsProvided)
      else if name \<in> set other_cases then other name s args
      else if name = ''getComprehensiveContext'' then
        (s, ok (ContextOk (getComprehensiveContext s
                             (case args of
                                None \<Rightarrow> JNull
                              | Some a \<Rightarrow> if a_query a = JUndefined then JNull else a_query a))))
      else if name = ''manageVector'' then
        (case args of
           Some a \<Rightarrow> manageVector s now a
         | None \<Rightarrow> (s, failed NoArgumentsProvided))
      else (s, failed (UnknownTool name)))"

section \<open>Background maintenance: \<^verbatim>\<open>performVectorMaintenance\<close>\<close>

record maintenance_options =
  forceRebuild :: bool
  cleanOrphans :: bool
  optimizeStorage :: bool

definition defaults :: maintenance_options where
  "defaults = \<lparr>forceRebuild = False, cleanOrphans = True, optimizeStorage = True\<rparr>"

record maintenance_results =
  indexesRebuilt :: bool
  orphansRemoved :: nat
  vectorsOptimized :: nat
  errors :: "string list"

text \<open>\<^verbatim>\<open>DELETE FROM vectors WHERE id = ?\<close>, and the loop that runs it for each listed row.\<close>

definition delete_vector :: "int \<Rightarrow> database \<Rightarrow> database" where
  "delete_vector i d = d\<lparr>vectors := filter (\<lambda>v. v_id v \<noteq> i) (vectors d)\<rparr>"

definition delete_all :: "vector_row list \<Rightarrow> database \<Rightarrow> database" where
  "delete_all rows d = fold (\<lambda>v. delete_vector (v_id v)) rows d"

text \<open>
  The three orphan queries: the fingerprints of a message type (file type, snippet type)
  that the \<^verbatim>\<open>LEFT JOIN\<close> pairs with no row of \<^verbatim>\<open>messages\<close> (\<^verbatim>\<open>code_files\<close>,
  \<^verbatim>\<open>code_snippets\<close>).
\<close>

definition message_types :: "string list" where
  "message_types = [''user_message'', ''assistant_message'', ''assistant_code_snippet'']"

definition orphanedMessageVectors :: "database \<Rightarrow> vector_row list" where
  "orphanedMessageVectors d =
     filter (\<lambda>v. v_content_type v \<in> set message_types
                \<and> v_content_id v \<notin> set (map m_id (messages d))) (vectors d)"

definition orphanedFileVectors :: "database \<Rightarrow> vector_row list" where
  "orphanedFileVectors d =
     filter (\<lambda>v. v_content_type v = ''code_file''
                \<and> v_content_id v \<notin> set (map cf_id (code_files d))) (vectors d)"

definition orphanedSnippetVectors :: "database \<Rightarrow> vector_row list" where
  "orphanedSnippetVectors d =
     filter (\<lambda>v. v_content_type v = ''code_snippet''
                \<and> v_content_id v \<notin> set (map cs_id (code_snippets d))) (vectors d)"

text \<open>Step 2: the three queries, each followed by its deletions; the count of deletions.\<close>

definition clean_orphans :: "database \<Rightarrow> database \<times> nat" where
  "clean_orphans d =
     (let o1 = orphanedMessageVectors d; d1 = delete_all o1 d;
          o2 = orphanedFileVectors d1; d2 = delete_all o2 d1;
          o3 = orphanedSnippetVectors d2; d3 = delete_all o3 d2
      in (d3, length o1 + length o2 + length o3))"

text \<open>
  Step 3: the keys \<^verbatim>\<open>(content_id, content_type)\<close> with more than one fingerprint, and for
  each of them the fingerprints newest first, all but the first deleted.
\<close>

definition vector_key :: "vector_row \<Rightarrow> int \<times> string" where
  "vector_key v = (v_content_id v, v_content_type v)"

definition duplicates :: "database \<Rightarrow> (int \<times> string) list" where
  "duplicates d =
     remdups (filter (\<lambda>k. length (filter (\<lambda>v. vector_key v = k) (vectors d)) > 1)
                (map vector_key (vectors d)))"

definition optimize_key :: "int \<times> string \<Rightarrow> database \<times> nat \<Rightarrow> database \<times> nat" where
  "optimize_key k acc =
     (case acc of (d, optimizedCount) \<Rightarrow>
        (let rows = sort_desc v_created_at (filter (\<lambda>v. vector_key v = k) (vectors d))
         in (delete_all (drop 1 rows) d, optimizedCount + length (drop 1 rows))))"

definition optimize_storage :: "database \<Rightarrow> database \<times> nat" where
  "optimize_storage d = fold optimize_key (duplicates d) (d, 0)"

text \<open>
  Step 1: \<^verbatim>\<open>DROP INDEX IF EXISTS idx_vectors_vector\<close>, then \<^verbatim>\<open>createVectorIndexes\<close>, which
  gets the vector index back when the engine can build one.
\<close>

definition rebuild_indexes :: "database \<Rightarrow> database" where
  "rebuild_indexes d = d\<lparr>vector_index := vector_capable d\<rparr>"

text \<open>\<^verbatim>\<open>performVectorMaintenance(options)\<close>, \<open>opts\<close> being the options merged over the defaults.\<close>

definition performVectorMaintenance ::
  "server_state \<Rightarrow> maintenance_options \<Rightarrow> server_state \<times> maintenance_results" where
  "performVectorMaintenance s opts =
     (case db s of
        None \<Rightarrow>
          (s, \<lparr>indexesRebuilt = False, orphansRemoved = 0, vectorsOptimized = 0,
               errors = [''Vector maintenance failed: Database not available or using in-memory storage'']\<rparr>)
      | Some d \<Rightarrow>
          if useInMemory s then
            (s, \<lparr>indexesRebuilt = False, orphansRemoved = 0, vectorsOptimized = 0,
                 errors = [''Vector maintenance failed: Database not available or using in-memory storage'']\<rparr>)
          else
            (let d1 = (if forceRebuild opts then rebuild_indexes d else d);
                 (d2, removed) = (if cleanOrphans opts then clean_orphans d1 else (d1, 0));
                 (d3, optimized) = (if optimizeStorage opts then optimize_storage d2 else (d2, 0))
             in (s\<lparr>db := Some d3\<rparr>,
                 \<lparr>indexesRebuilt = forceRebuild opts, orphansRemoved = removed,
                  vectorsOptimized = optimized, errors = []\<rparr>)))"

section \<open>Auxiliary notions\<close>

text \<open>
  An item with the score that \<^verbatim>\<open>scoreItemsByRelevance\<close> attaches to it: the similarity of
  the query to the vector decoded for the item's id, and 0 when there is none.
\<close>

definition scored :: "database \<Rightarrow> vec \<Rightarrow> string \<Rightarrow> string option \<Rightarrow> 'a item \<Rightarrow> 'a item" where
  "scored d qv primaryType secondaryType it =
     it\<lparr>relevance :=
          Rel (case decode_rows (filter (of_types primaryType secondaryType) (vectors d)) of
                 Inr decoded \<Rightarrow>
                   (case vectorMap_of decoded (item_id it) of
                      Some itemVector \<Rightarrow> cosineSimilarity qv itemVector
                    | None \<Rightarrow> 0)
               | Inl error \<Rightarrow> 0)\<rparr>"

text \<open>
  Whether the row that owns a fingerprint exists: a message for the message types, a row
  of \<^verbatim>\<open>code_files\<close> or \<^verbatim>\<open>code_snippets\<close> for those types. A fingerprint of any other content
  type has no owner table in the maintenance job.
\<close>

definition owner_exists :: "database \<Rightarrow> vector_row \<Rightarrow> bool" where
  "owner_exists d v =
     (if v_content_type v \<in> set message_types then v_content_id v \<in> set (map m_id (messages d))
      else if v_content_type v = ''code_file'' then v_content_id v \<in> set (map cf_id (code_files d))
      else if v_content_type v = ''code_snippet'' then
        v_content_id v \<in> set (map cs_id (code_snippets d))
      else True)"


section \<open>Example data\<close>

text \<open>
  A database with no rows, on an engine without vector search: the index is not there and
  \<^verbatim>\<open>vector_top_k\<close> is no function of it, so that every search is a scan.
\<close>

definition empty_db :: database where
  "empty_db =
     \<lparr>messages = [], active_files = [], milestones = [], decisions = [], requirements = [],
      episodes = [], vectors = [], code_files = [], code_snippets = [], vectors_seq = 0,
      vector_index = False, vector_capable = False,
      vector_top_k = (\<lambda>rows queryVector k. Inl (Error ''no such table: vector_top_k''))\<rparr>"

text \<open>
  Three fingerprints of two dimensions: two of code files, both the encoding of
  \<open>[1, 0]\<close>, and one of a user message, the encoding of \<open>[4, 3]\<close>.
\<close>

definition search_db :: database where
  "search_db = empty_db
     \<lparr>vectors :=
        [\<lparr>v_id = 1, v_content_id = 1, v_content_type = ''code_file'',
          v_vector = [0, 0, 128, 63, 0, 0, 0, 0],
          v_created_at = 1000, v_metadata = None\<rparr>,
         \<lparr>v_id = 2, v_content_id = 2, v_content_type = ''code_file'',
          v_vector = [0, 0, 128, 63, 0, 0, 0, 0],
          v_created_at = 2000, v_metadata = None\<rparr>,
         \<lparr>v_id = 3, v_content_id = 7, v_content_type = ''user_message'',
          v_vector = [0, 0, 128, 64, 0, 0, 64, 64],
          v_created_at = 3000, v_metadata = None\<rparr>],
      vectors_seq := 3\<rparr>"

definition search_state :: server_state where
  "search_state = \<lparr>db = Some search_db, useInMemory = False\<rparr>"

text \<open>Two selected messages, of which only the first (id 7) has a fingerprint.\<close>

definition two_items :: "message_row item list" where
  "two_items =
     as_items m_id
       [\<lparr>m_id = 7, m_role = ''user'', m_content = ''seven'', m_created_at = 3000,
         m_importance = ''low''\<rparr>,
        \<lparr>m_id = 8, m_role = ''user'', m_content = ''eight'', m_created_at = 4000,
         m_importance = ''low''\<rparr>]"

text \<open>Twenty messages stored one after the other, with increasing timestamps.\<close>

definition message_at :: "int \<Rightarrow> message_row" where
  "message_at n =
     \<lparr>m_id = n, m_role = ''user'', m_content = ''message'', m_created_at = 1000 * n,
      m_importance = ''low''\<rparr>"

definition twenty_messages :: "message_row list" where
  "twenty_messages =
     map message_at [1, 2, 3, 4, 5, 6, 7, 8, 9, 10, 11, 12, 13, 14, 15, 16, 17, 18, 19, 20]"

definition twenty_messages_state :: server_state where
  "twenty_messages_state =
     \<lparr>db = Some (empty_db\<lparr>messages := twenty_messages\<rparr>), useInMemory = False\<rparr>"

text \<open>A store whose only long-term record is a milestone of low importance.\<close>

definition low_milestone_state :: server_state where
  "low_milestone_state =
     \<lparr>db = Some (empty_db
        \<lparr>milestones := [\<lparr>ms_id = 1, ms_title = ''Setup'', ms_description = ''Project created'',
                          ms_importance = ''low'', ms_created_at = 1000\<rparr>]\<rparr>),
      useInMemory = False\<rparr>"

text \<open>
  Message 7 exists, message 9 was deleted. Fingerprints: one of each of them, one of a
  milestone, one of a code file that is not in \<^verbatim>\<open>code_files\<close>.
\<close>

definition maintenance_state :: server_state where
  "maintenance_state =
     \<lparr>db = Some (empty_db
        \<lparr>messages := [message_at 7],
         vectors :=
           [\<lparr>v_id = 1, v_content_id = 7, v_content_type = ''user_message'',
             v_vector = [0, 0, 128, 64, 0, 0, 64, 64],
             v_created_at = 7000, v_metadata = None\<rparr>,
            \<lparr>v_id = 2, v_content_id = 9, v_content_type = ''assistant_message'',
             v_vector = [0, 0, 128, 63, 0, 0, 0, 0],
             v_created_at = 9000, v_metadata = None\<rparr>,
            \<lparr>v_id = 3, v_content_id = 9, v_content_type = ''milestone'',
             v_vector = [0, 0, 0, 0, 0, 0, 128, 63],
             v_created_at = 9500, v_metadata = None\<rparr>,
            \<lparr>v_id = 4, v_content_id = 5, v_content_type = ''code_file'',
             v_vector = [0, 0, 128, 63, 0, 0, 128, 63],
             v_created_at = 9600, v_metadata = None\<rparr>],
         vectors_seq := 4\<rparr>),
      useInMemory = False\<rparr>"

text \<open>The arguments \<^verbatim>\<open>{operation: 'delete', vectorId}\<close> and \<^verbatim>\<open>{operation: 'update', vectorId}\<close>.\<close>

definition delete_args :: "int \<Rightarrow> tool_args" where
  "delete_args vectorId =
     \<lparr>a_operation = Some ''delete'', a_contentId = None, a_contentType = None,
      a_vector = NoVector, a_metadata = None, a_vectorId = Some vectorId, a_limit = None,
      a_threshold = None, a_query = JUndefined\<rparr>"

definition update_args :: "int \<Rightarrow> tool_args" where
  "update_args vectorId = (delete_args vectorId)\<lparr>a_operation := Some ''update''\<rparr>"

text \<open>A stand-in for the handlers that are a parameter of the dispatcher.\<close>

definition no_handlers :: "string \<Rightarrow> server_state \<Rightarrow> tool_args option \<Rightarrow> server_state \<times> tool_result" where
  "no_handlers name s args = (s, ok (SearchOk []))"

text \<open>A server on the empty database.\<close>

definition empty_state :: server_state where
  "empty_state = \<lparr>db = Some empty_db, useInMemory = False\<rparr>"

section \<open>Properties of the fingerprint generator\<close>

lemma embedding_value_empty: "embedding_value [] i = 0"
  by (simp add: embedding_value_def)

lemma trim_empty: "trim (toLowerCase []) = []"
  by (simp add: trim_def toLowerCase_def)

lemma createEmbedding_cases:
  "createEmbedding text d =
     Inr (case text of
            JString t \<Rightarrow> map (\<lambda>i. tanh (embedding_value (trim (toLowerCase t)) i)) [0..<d]
          | _ \<Rightarrow> replicate d 0)"
  by (cases "text") (simp_all add: createEmbedding_def Let_def)

text \<open>
  C6. For every text and every dimension count, \<^verbatim>\<open>createEmbedding\<close> returns a vector (it
  never rejects), of the requested length, with every component strictly between -1 and
  1, hence finite; the empty string gives the zero vector of that length; and the result
  is a function of the text and the dimension count alone.
\<close>

theorem createEmbedding_total_deterministic:
  "(\<exists>vector. createEmbedding text dimensions = Inr vector \<and> length vector = dimensions
       \<and> (\<forall>x \<in> set vector. - 1 < x \<and> x < 1))
   \<and> createEmbedding (JString '''') dimensions = Inr (replicate dimensions 0)
   \<and> (text' = text \<and> dimensions' = dimensions
        \<longrightarrow> createEmbedding text' dimensions' = createEmbedding text dimensions)"
proof (intro conjI)
  show "\<exists>vector. createEmbedding text dimensions = Inr vector \<and> length vector = dimensions
       \<and> (\<forall>x \<in> set vector. - 1 < x \<and> x < 1)"
  proof (cases "text")
    case (JString t)
    then show ?thesis
      using tanh_real_bounds by (auto simp: createEmbedding_cases)
  qed (auto simp: createEmbedding_cases)
  show "createEmbedding (JString '''') dimensions = Inr (replicate dimensions 0)"
    by (simp add: createEmbedding_cases trim_empty embedding_value_empty map_replicate_const)
  show "text' = text \<and> dimensions' = dimensions
        \<longrightarrow> createEmbedding text' dimensions' = createEmbedding text dimensions"
    by simp
qed

theorem createEmbedding_total_deterministic_witness:
  "(\<exists>vector. createEmbedding (JString ''Hi '') 2 = Inr vector \<and> length vector = 2)
   \<and> createEmbedding JNull 2 = Inr [0, 0]"
proof
  show "\<exists>vector. createEmbedding (JString ''Hi '') 2 = Inr vector \<and> length vector = 2"
    using createEmbedding_total_deterministic [of "JString ''Hi ''" 2 "JString ''Hi ''" 2]
    by blast
  show "createEmbedding JNull 2 = Inr [0, 0]"
    by (simp add: createEmbedding_def numeral_2_eq_2)
qed

section \<open>Properties of the binary encoding\<close>

lemma le_word_le_bytes: "le_word (le_bytes w) = w"
proof (rule bit_word_eqI)
  fix n assume "n < LENGTH(32)"
  then have n: "n < 32" by simp
  consider "n < 8" | "8 \<le> n" "n < 16" | "16 \<le> n" "n < 24" | "24 \<le> n" "n < 32"
    using n by linarith
  then show "bit (le_word (le_bytes w)) n = bit w n"
  proof cases
    case 1 then show ?thesis by (simp add: le_bytes_def bit_simps)
  next
    case 2 then show ?thesis by (auto simp add: le_bytes_def bit_simps)
  next
    case 3 then show ?thesis by (auto simp add: le_bytes_def bit_simps)
  next
    case 4 then show ?thesis by (auto simp add: le_bytes_def bit_simps)
  qed
qed

lemma length_le_bytes: "length (le_bytes w) = 4"
  by (simp add: le_bytes_def)

lemma length_concat_le_bytes: "length (concat (map le_bytes xs)) = 4 * length xs"
  by (induction xs) (simp_all add: length_le_bytes)

lemma take_drop_le_bytes:
  "i < length xs \<Longrightarrow> take 4 (drop (4 * i) (concat (map le_bytes xs))) = le_bytes (xs ! i)"
proof (induction xs arbitrary: i)
  case Nil
  then show ?case by simp
next
  case (Cons x xs)
  show ?case
  proof (cases i)
    case 0
    then show ?thesis by (simp add: length_le_bytes)
  next
    case (Suc j)
    with Cons.prems have "j < length xs" by simp
    then show ?thesis using Suc Cons.IH [of j] by (simp add: length_le_bytes)
  qed
qed

lemma float32_elements_of: "float32_elements (Float32Array_of xs) = xs"
proof -
  have "map (\<lambda>i. le_word (take 4 (drop (4 * i) (concat (map le_bytes xs))))) [0..<length xs]
        = map (\<lambda>i. xs ! i) [0..<length xs]"
    by (rule map_cong) (simp_all add: take_drop_le_bytes le_word_le_bytes)
  then show ?thesis
    by (simp add: float32_elements_def Float32Array_of_def map_nth)
qed

text \<open>
  C7. For every sequence \<open>xs\<close> of float32 values, held in a \<^verbatim>\<open>Float32Array\<close> as the program
  builds it: \<^verbatim>\<open>bufferToVector(vectorToBuffer(v))\<close> succeeds and is a vector of the same
  length with the same elements, bit for bit, and the buffer in between has 4 bytes per
  dimension.
\<close>

theorem vector_buffer_roundtrip:
  "bufferToVector (NodeBuffer (vectorToBuffer (Float32Array_of xs))) = Inr (Float32Array_of xs)
   \<and> float32_elements (Float32Array_of xs) = xs
   \<and> elems (Float32Array_of xs) = length xs
   \<and> elems (vectorToBuffer (Float32Array_of xs)) = 4 * length xs"
proof (intro conjI)
  show "bufferToVector (NodeBuffer (vectorToBuffer (Float32Array_of xs))) = Inr (Float32Array_of xs)"
    by (simp add: vectorToBuffer_def Float32Array_of_def length_concat_le_bytes)
  show "float32_elements (Float32Array_of xs) = xs"
    by (rule float32_elements_of)
  show "elems (Float32Array_of xs) = length xs"
    by (simp add: Float32Array_of_def)
  show "elems (vectorToBuffer (Float32Array_of xs)) = 4 * length xs"
    by (simp add: vectorToBuffer_def Float32Array_of_def length_concat_le_bytes)
qed

section \<open>Properties of the similarity and of the decoding of stored vectors\<close>

lemma sqrt_25: "sqrt 25 = 5"
  using real_sqrt_abs [of 5] by simp

lemma cosineSimilarity_4_3: "cosineSimilarity [1, 0] [4, 3] = 4 / 5"
  by (simp add: cosineSimilarity_def sqrt_25)

text \<open>
  Against the empty vector every query has similarity 0: a query with elements differs in
  length, and the empty query has norm 0.
\<close>

lemma cosineSimilarity_empty: "cosineSimilarity queryVector [] = 0"
  by (cases queryVector) (simp_all add: cosineSimilarity_def)

text \<open>The pattern \<open>0x3F800000\<close> is the number 1, and a fresh vector reads as its elements.\<close>

lemma float32_value_1: "float32_value 0x3F800000 = 1"
  by (simp add: float32_value_def powr_minus powr_numeral bit_simps take_bit_eq_mod
      drop_bit_eq_div)

lemma vector_values_of: "vector_values (Float32Array_of xs) = map float32_value xs"
  by (simp add: vector_values_def float32_elements_of)

text \<open>The bytes that storing the vector \<open>[1, 0]\<close> writes.\<close>

lemma stored_bytes_1_0:
  "buffer_bytes (vectorToBuffer (Float32Array_of [0x3F800000, 0])) = [0, 0, 128, 63, 0, 0, 0, 0]"
  by (simp add: buffer_bytes_def vectorToBuffer_def Float32Array_of_def le_bytes_def)

text \<open>
  A vector that is read back from the database decodes to the empty vector, whatever was
  stored, and the decoding never throws.
\<close>

lemma storedVector_empty: "storedVector row = Inr []"
  by (simp add: storedVector_def vector_values_def float32_elements_def)

lemma decode_rows_empty: "decode_rows rows = Inr (map (\<lambda>row. (row, [])) rows)"
  by (induction rows) (simp_all add: storedVector_empty)

section \<open>Properties of the similarity search\<close>

lemma sorted_wrt_sort_desc:
  fixes key :: "'a \<Rightarrow> 'k::linordered_ab_group_add"
  shows "sorted_wrt (\<lambda>a b. key b \<le> key a) (sort_desc key xs)"
proof -
  have "sorted (map (\<lambda>x. - key x) (sort_key (\<lambda>x. - key x) xs))"
    by (rule sorted_sort_key)
  then show ?thesis
    by (simp add: sort_desc_def sorted_map)
qed

lemma set_sort_desc: "set (sort_desc key xs) = set xs"
  by (simp add: sort_desc_def)

lemma length_sort_desc: "length (sort_desc key xs) = length xs"
  by (simp add: sort_desc_def)




lemma set_slice0: "x \<in> set (slice0 n xs) \<Longrightarrow> x \<in> set xs"
  by (auto simp: slice0_def dest: in_set_takeD split: if_splits)




text \<open>The scan scores every row 0: the vector it decodes is empty.\<close>

lemma full_scan_similarity_0:
  assumes "full_scan d q ct limit thr = Inr res" and "r \<in> set res"
  shows "r_similarity r = 0"
  using assms
  by (auto simp: full_scan_def Let_def decode_rows_empty cosineSimilarity_empty set_sort_desc
      dest!: set_slice0)





section \<open>Properties of the relevance scorer\<close>

lemma dom_fold_vectorMap:
  "dom (fold (\<lambda>(v, itemVector) m. m(v_content_id v \<mapsto> itemVector)) decoded m)
     = dom m \<union> (\<lambda>(v, itemVector). v_content_id v) ` set decoded"
  by (induction decoded arbitrary: m) auto

lemma vectorMap_of_None:
  "vectorMap_of (map (\<lambda>row. (row, f row)) rows) k = None \<longleftrightarrow> k \<notin> v_content_id ` set rows"
proof -
  have "dom (vectorMap_of (map (\<lambda>row. (row, f row)) rows)) = v_content_id ` set rows"
    using dom_fold_vectorMap [of "map (\<lambda>row. (row, f row)) rows" Map.empty]
    by (simp add: vectorMap_of_def image_image)
  then show ?thesis by (metis domIff)
qed

lemma scoreItemsByRelevance_scored:
  assumes "db s = Some d" and "items \<noteq> []"
  shows "scoreItemsByRelevance s items (Some qv) primaryType secondaryType threshold =
           sort_desc rel_of (filter (\<lambda>it. threshold \<le> rel_of it)
              (map (scored d qv primaryType secondaryType) items))"
  using assms
  by (simp add: scoreItemsByRelevance_def Let_def scored_def [abs_def] decode_rows_empty)

lemma item_id_scored: "item_id (scored d qv p t it) = item_id it"
  by (simp add: scored_def)

lemma relevance_scored: "relevance (scored d qv p t it) = Rel (rel_of (scored d qv p t it))"
  by (simp add: scored_def rel_of_def)

lemma rel_of_scored_unknown:
  "\<forall>v \<in> set (vectors d). of_types p t v \<longrightarrow> v_content_id v \<noteq> item_id it
   \<Longrightarrow> rel_of (scored d qv p t it) = 0"
proof -
  assume "\<forall>v \<in> set (vectors d). of_types p t v \<longrightarrow> v_content_id v \<noteq> item_id it"
  then have "vectorMap_of (map (\<lambda>row. (row, [])) (filter (of_types p t) (vectors d)))
               (item_id it) = None"
    by (auto simp: vectorMap_of_None)
  then show ?thesis by (simp add: scored_def rel_of_def decode_rows_empty)
qed


text \<open>Every vector of the map is empty, so that every score is 0.\<close>

lemma fold_vectorMap_empty:
  "fold (\<lambda>(v, itemVector) m. m(v_content_id v \<mapsto> itemVector)) (map (\<lambda>row. (row, [])) rows) m k
     = Some a
   \<Longrightarrow> a = [] \<or> m k = Some a"
proof (induction rows arbitrary: m)
  case Nil
  then show ?case by simp
next
  case (Cons row rows)
  from Cons.prems have "a = [] \<or> (m(v_content_id row \<mapsto> [])) k = Some a"
    by (intro Cons.IH) simp
  then show ?case by (auto split: if_splits)
qed

lemma vectorMap_of_empty: "vectorMap_of (map (\<lambda>row. (row, [])) rows) k = Some a \<Longrightarrow> a = []"
  using fold_vectorMap_empty [of rows Map.empty k a] by (simp add: vectorMap_of_def)

lemma scored_relevance_0: "relevance (scored d qv p t it) = Rel 0"
  by (cases "vectorMap_of (map (\<lambda>row. (row, [])) (filter (of_types p t) (vectors d))) (item_id it)")
     (auto simp: scored_def decode_rows_empty cosineSimilarity_empty dest: vectorMap_of_empty)

lemma mset_sort_desc: "mset (sort_desc key xs) = mset xs"
  by (simp add: sort_desc_def)

text \<open>
  C4. With a database, for every non-empty item list, query vector, content types and
  threshold: every item that \<^verbatim>\<open>scoreItemsByRelevance\<close> returns carries a relevance, which is
  at least the threshold; the items are in descending order of relevance; an item whose id
  has no fingerprint of the requested types gets relevance 0, so that with a positive
  threshold every returned item has such a fingerprint; and the result is, up to order,
  the scored input items that reach the threshold. The function is total: a missing
  fingerprint is no error.
\<close>

theorem scoreItemsByRelevance_correct:
  assumes "db s = Some d" and "items \<noteq> []"
  shows "(let out = scoreItemsByRelevance s items (Some qv) primaryType secondaryType threshold in
          (\<forall>x \<in> set out. \<exists>r. relevance x = Rel r \<and> threshold \<le> r)
          \<and> sorted_wrt (\<lambda>a b. rel_of b \<le> rel_of a) out
          \<and> (\<forall>x \<in> set out.
                (\<forall>v \<in> set (vectors d). of_types primaryType secondaryType v
                     \<longrightarrow> v_content_id v \<noteq> item_id x)
                \<longrightarrow> relevance x = Rel 0)
          \<and> (0 < threshold \<longrightarrow>
                (\<forall>x \<in> set out. \<exists>v \<in> set (vectors d).
                    of_types primaryType secondaryType v \<and> v_content_id v = item_id x))
          \<and> mset out = mset (filter (\<lambda>it. threshold \<le> rel_of it)
                               (map (scored d qv primaryType secondaryType) items)))"
proof -
  let ?sc = "scored d qv primaryType secondaryType"
  let ?out = "scoreItemsByRelevance s items (Some qv) primaryType secondaryType threshold"
  have out: "?out = sort_desc rel_of (filter (\<lambda>it. threshold \<le> rel_of it) (map ?sc items))"
    by (rule scoreItemsByRelevance_scored [OF assms])
  have mem: "\<exists>it \<in> set items. x = ?sc it \<and> threshold \<le> rel_of x" if "x \<in> set ?out" for x
    using that unfolding out by (auto simp: set_sort_desc)
  have 1: "\<forall>x \<in> set ?out. \<exists>r. relevance x = Rel r \<and> threshold \<le> r"
  proof
    fix x assume "x \<in> set ?out"
    then obtain it where "x = ?sc it" "threshold \<le> rel_of x" using mem by blast
    then show "\<exists>r. relevance x = Rel r \<and> threshold \<le> r"
      using relevance_scored [of d qv primaryType secondaryType it] by blast
  qed
  have 2: "sorted_wrt (\<lambda>a b. rel_of b \<le> rel_of a) ?out"
    unfolding out by (rule sorted_wrt_sort_desc)
  have 3: "\<forall>x \<in> set ?out.
                (\<forall>v \<in> set (vectors d). of_types primaryType secondaryType v
                     \<longrightarrow> v_content_id v \<noteq> item_id x)
                \<longrightarrow> relevance x = Rel 0"
  proof (intro ballI impI)
    fix x assume x: "x \<in> set ?out"
      and none: "\<forall>v \<in> set (vectors d). of_types primaryType secondaryType v
                     \<longrightarrow> v_content_id v \<noteq> item_id x"
    from x obtain it where it: "x = ?sc it" using mem by blast
    then have "item_id x = item_id it" by (simp add: item_id_scored)
    with none have "rel_of (?sc it) = 0" by (intro rel_of_scored_unknown) simp
    then show "relevance x = Rel 0"
      using relevance_scored [of d qv primaryType secondaryType it] it by simp
  qed
  have 4: "0 < threshold \<longrightarrow>
                (\<forall>x \<in> set ?out. \<exists>v \<in> set (vectors d).
                    of_types primaryType secondaryType v \<and> v_content_id v = item_id x)"
  proof (intro impI ballI)
    fix x assume pos: "0 < threshold" and x: "x \<in> set ?out"
    show "\<exists>v \<in> set (vectors d). of_types primaryType secondaryType v \<and> v_content_id v = item_id x"
    proof (rule ccontr)
      assume "\<not> ?thesis"
      then have "relevance x = Rel 0" using 3 x by blast
      moreover obtain r where "relevance x = Rel r" "threshold \<le> r" using 1 x by blast
      ultimately show False using pos by simp
    qed
  qed
  have 5: "mset ?out = mset (filter (\<lambda>it. threshold \<le> rel_of it) (map ?sc items))"
    unfolding out by (rule mset_sort_desc)
  show ?thesis
    unfolding Let_def using 1 2 3 4 5 by blast
qed


text \<open>
  Every score is 0, since every decoded vector is empty: with the threshold 0 both
  messages are returned, with a positive threshold none.
\<close>

theorem scoreItemsByRelevance_correct_witness:
  "scoreItemsByRelevance search_state two_items (Some [1, 0]) ''user_message''
       (Some ''assistant_message'') 0 =
     [\<lparr>item_id = 7,
       item_row = \<lparr>m_id = 7, m_role = ''user'', m_content = ''seven'', m_created_at = 3000,
                   m_importance = ''low''\<rparr>,
       relevance = Rel 0\<rparr>,
      \<lparr>item_id = 8,
       item_row = \<lparr>m_id = 8, m_role = ''user'', m_content = ''eight'', m_created_at = 4000,
                   m_importance = ''low''\<rparr>,
       relevance = Rel 0\<rparr>]
   \<and> sorted_wrt (\<lambda>a b. rel_of b \<le> rel_of a)
        (scoreItemsByRelevance search_state two_items (Some [1, 0]) ''user_message''
           (Some ''assistant_message'') 0)"
proof -
  have db: "db search_state = Some search_db" by (simp add: search_state_def)
  have ne: "two_items \<noteq> []" by (simp add: two_items_def as_items_def)
  have "scoreItemsByRelevance search_state two_items (Some [1, 0]) ''user_message''
       (Some ''assistant_message'') 0 =
     [\<lparr>item_id = 7,
       item_row = \<lparr>m_id = 7, m_role = ''user'', m_content = ''seven'', m_created_at = 3000,
                   m_importance = ''low''\<rparr>,
       relevance = Rel 0\<rparr>,
      \<lparr>item_id = 8,
       item_row = \<lparr>m_id = 8, m_role = ''user'', m_content = ''eight'', m_created_at = 4000,
                   m_importance = ''low''\<rparr>,
       relevance = Rel 0\<rparr>]"
    unfolding scoreItemsByRelevance_scored [OF db ne]
    by (simp add: scored_def decode_rows_empty vectorMap_of_def of_types_def search_db_def
        empty_db_def two_items_def as_items_def sort_desc_def rel_of_def
        cosineSimilarity_empty)
  then show ?thesis
    using scoreItemsByRelevance_correct [OF db ne, of "[1, 0]" "''user_message''"
        "Some ''assistant_message''" 0]
    by (simp add: Let_def)
qed

section \<open>Properties of the context assembler\<close>

lemma pick_no_query: "pick s items None p t n = take n items"
  by (simp add: pick_def)

lemma relevance_snapshot_as_items:
  "\<forall>it \<in> set (snapshot_items (take n (as_items f rows))). relevance it = Null"
  by (auto simp: snapshot_items_def as_items_def dest!: in_set_takeD)

lemma item_row_snapshot_as_items:
  "map item_row (snapshot_items (take n (as_items f rows))) = take n rows"
  by (simp add: snapshot_items_def as_items_def take_map o_def)

lemma sorted_desc_take_drop:
  fixes key :: "'a \<Rightarrow> 'k::linorder"
  assumes "sorted_wrt (\<lambda>a b. key b \<le> key a) xs"
  shows "\<forall>a \<in> set (drop n xs). \<forall>b \<in> set (take n xs). key a \<le> key b"
proof -
  have "sorted_wrt (\<lambda>a b. key b \<le> key a) (take n xs @ drop n xs)"
    using assms by simp
  then show ?thesis unfolding sorted_wrt_append by blast
qed

lemma getComprehensiveContext_no_query:
  assumes "db s = Some d" and "\<not> truthy userMessage"
  shows "getComprehensiveContext s userMessage =
     empty_context
       \<lparr>shortTerm := Some
          \<lparr>recentMessages = snapshot_items (take 5 (as_items m_id (select_messages d))),
           activeFiles = snapshot_items (take 5 (as_items af_id (select_files d)))\<rparr>,
        longTerm := Some
          \<lparr>lt_milestones = snapshot_items (take 3 (as_items ms_id (select_milestones d))),
           lt_decisions = snapshot_items (take 3 (as_items dc_id (select_decisions d))),
           lt_requirements = snapshot_items (take 3 (as_items rq_id (select_requirements d)))\<rparr>,
        episodic := Some
          \<lparr>recentEpisodes = snapshot_items (take 5 (as_items ep_id (select_episodes d)))\<rparr>,
        semantic := SemanticEmpty\<rparr>"
  using assms by (simp add: getComprehensiveContext_def pick_no_query)


lemma recent_rows:
  "map item_row (snapshot_items (take 5 (as_items m_id (select_messages d))))
     = take 5 (sort_desc m_created_at (messages d))"
  by (simp add: item_row_snapshot_as_items select_messages_def)

text \<open>
  C5. With a database and no query (a missing, \<^verbatim>\<open>null\<close> or empty message), the snapshot has its
  three partitions and no error, the semantic partition is empty, every item of every
  partition has relevance \<^verbatim>\<open>null\<close>, and \<^verbatim>\<open>shortTerm.recentMessages\<close> holds \<open>min 5 total\<close>
  stored messages in descending order of creation time, none of them older than a message
  that was left out.
\<close>

theorem getComprehensiveContext_no_query_snapshot:
  assumes "db s = Some d" and "\<not> truthy userMessage"
  shows "\<exists>st lt ep.
     shortTerm (getComprehensiveContext s userMessage) = Some st
     \<and> longTerm (getComprehensiveContext s userMessage) = Some lt
     \<and> episodic (getComprehensiveContext s userMessage) = Some ep
     \<and> semantic (getComprehensiveContext s userMessage) = SemanticEmpty
     \<and> ctx_error (getComprehensiveContext s userMessage) = None
     \<and> (\<forall>it \<in> set (recentMessages st). relevance it = Null)
     \<and> (\<forall>it \<in> set (activeFiles st). relevance it = Null)
     \<and> (\<forall>it \<in> set (lt_milestones lt). relevance it = Null)
     \<and> (\<forall>it \<in> set (lt_decisions lt). relevance it = Null)
     \<and> (\<forall>it \<in> set (lt_requirements lt). relevance it = Null)
     \<and> (\<forall>it \<in> set (recentEpisodes ep). relevance it = Null)
     \<and> length (recentMessages st) = min 5 (length (messages d))
     \<and> sorted_wrt (\<lambda>a b. m_created_at (item_row b) \<le> m_created_at (item_row a))
          (recentMessages st)
     \<and> mset (map item_row (recentMessages st)) \<subseteq># mset (messages d)
     \<and> (\<forall>m \<in># mset (messages d) - mset (map item_row (recentMessages st)).
           \<forall>it \<in> set (recentMessages st). m_created_at m \<le> m_created_at (item_row it))"
proof -
  let ?S = "sort_desc m_created_at (messages d)"
  let ?rm = "snapshot_items (take 5 (as_items m_id (select_messages d)))"
  have rows: "map item_row ?rm = take 5 ?S" by (rule recent_rows)
  have sorted: "sorted_wrt (\<lambda>a b. m_created_at b \<le> m_created_at a) ?S"
    by (rule sorted_wrt_sort_desc)
  have len: "length ?rm = min 5 (length (messages d))"
  proof -
    have "length ?rm = length (map item_row ?rm)" by simp
    also have "\<dots> = min 5 (length (messages d))"
      unfolding rows by (simp add: length_sort_desc min.commute)
    finally show ?thesis .
  qed
  have "sorted_wrt (\<lambda>a b. m_created_at b \<le> m_created_at a) (map item_row ?rm)"
    unfolding rows using sorted by (rule sorted_wrt_take)
  then have desc: "sorted_wrt (\<lambda>a b. m_created_at (item_row b) \<le> m_created_at (item_row a)) ?rm"
    by (simp add: sorted_wrt_map)
  have split: "mset (messages d) = mset (take 5 ?S) + mset (drop 5 ?S)"
    by (metis append_take_drop_id mset_append mset_sort_desc)
  have sub: "mset (map item_row ?rm) \<subseteq># mset (messages d)"
    unfolding rows split by simp
  have diff: "mset (messages d) - mset (map item_row ?rm) = mset (drop 5 ?S)"
    unfolding rows split by simp
  have older: "\<forall>m \<in># mset (messages d) - mset (map item_row ?rm).
           \<forall>it \<in> set ?rm. m_created_at m \<le> m_created_at (item_row it)"
  proof (intro ballI)
    fix m it
    assume "m \<in># mset (messages d) - mset (map item_row ?rm)" and it: "it \<in> set ?rm"
    then have m: "m \<in> set (drop 5 ?S)" unfolding diff by simp
    from it have "item_row it \<in> set (map item_row ?rm)" by simp
    then have "item_row it \<in> set (take 5 ?S)" unfolding rows .
    with m show "m_created_at m \<le> m_created_at (item_row it)"
      using sorted_desc_take_drop [OF sorted, of 5] by blast
  qed
  show ?thesis
    unfolding getComprehensiveContext_no_query [OF assms]
    using len desc sub older
    by (simp add: empty_context_def relevance_snapshot_as_items)
qed


theorem getComprehensiveContext_no_query_snapshot_witness:
  "\<exists>st. shortTerm (getComprehensiveContext twenty_messages_state JNull) = Some st
     \<and> map item_row (recentMessages st) = map message_at [20, 19, 18, 17, 16]
     \<and> map relevance (recentMessages st) = [Null, Null, Null, Null, Null]
     \<and> length (recentMessages st) = min 5 20"
proof -
  let ?d = "empty_db\<lparr>messages := twenty_messages\<rparr>"
  have db: "db twenty_messages_state = Some ?d"
    by (simp add: twenty_messages_state_def)
  have nq: "\<not> truthy JNull" by simp
  have rows: "snapshot_items (take 5 (as_items m_id (select_messages ?d)))
        = map (\<lambda>m. \<lparr>item_id = m_id m, item_row = m, relevance = Null\<rparr>)
            (map message_at [20, 19, 18, 17, 16])"
    by (simp add: select_messages_def sort_desc_def message_at_def empty_db_def
        twenty_messages_def snapshot_items_def as_items_def)
  from getComprehensiveContext_no_query_snapshot [OF db nq]
  obtain st where st: "shortTerm (getComprehensiveContext twenty_messages_state JNull) = Some st"
    and len: "length (recentMessages st) = min 5 (length (messages ?d))"
    by blast
  from st have "recentMessages st = snapshot_items (take 5 (as_items m_id (select_messages ?d)))"
    unfolding getComprehensiveContext_no_query [OF db nq] by (auto simp: empty_context_def)
  with rows have "recentMessages st = map (\<lambda>m. \<lparr>item_id = m_id m, item_row = m, relevance = Null\<rparr>)
            (map message_at [20, 19, 18, 17, 16])"
    by simp
  with st len show ?thesis by (simp add: twenty_messages_def)
qed

text \<open>The scorer and the final \<^verbatim>\<open>map\<close> only keep rows that were selected.\<close>

lemma item_row_scoreItemsByRelevance:
  "x \<in> set (scoreItemsByRelevance s items qv p t thr) \<Longrightarrow> item_row x \<in> item_row ` set items"
  by (auto simp: scoreItemsByRelevance_def Let_def set_sort_desc decode_rows_empty
      split: option.splits if_splits)

lemma item_row_pick:
  "x \<in> set (pick s items qv p t n) \<Longrightarrow> item_row x \<in> item_row ` set items"
  by (auto simp: pick_def split: option.splits
      dest!: in_set_takeD dest: item_row_scoreItemsByRelevance)

lemma item_row_snapshot_pick:
  assumes "x \<in> set (snapshot_items (pick s (as_items f rows) qv p t n))"
  shows "item_row x \<in> set rows"
proof -
  from assms obtain y where "y \<in> set (pick s (as_items f rows) qv p t n)" "item_row x = item_row y"
    by (auto simp: snapshot_items_def)
  then have "item_row x \<in> item_row ` set (as_items f rows)"
    using item_row_pick by metis
  then show ?thesis by (auto simp: as_items_def)
qed

lemma select_decisions_important: "r \<in> set (select_decisions d) \<Longrightarrow> important (dc_importance r)"
  by (auto simp: select_decisions_def set_sort_desc dest!: in_set_takeD)

lemma select_requirements_important:
  "r \<in> set (select_requirements d) \<Longrightarrow> important (rq_importance r)"
  by (auto simp: select_requirements_def set_sort_desc dest!: in_set_takeD)

lemma longTerm_cases:
  assumes "longTerm (getComprehensiveContext s userMessage) = Some lt"
  shows "\<exists>d qv. db s = Some d
     \<and> lt_milestones lt = snapshot_items (pick s (as_items ms_id (select_milestones d)) qv ''milestone'' None 3)
     \<and> lt_decisions lt = snapshot_items (pick s (as_items dc_id (select_decisions d)) qv ''decision'' None 3)
     \<and> lt_requirements lt = snapshot_items (pick s (as_items rq_id (select_requirements d)) qv ''requirement'' None 3)"
  using assms
  by (auto simp: getComprehensiveContext_def empty_context_def split: sum.splits option.splits)

lemma longTerm_decisions_requirements_important:
  assumes "longTerm (getComprehensiveContext s userMessage) = Some lt"
  shows "(\<forall>it \<in> set (lt_decisions lt). important (dc_importance (item_row it)))
       \<and> (\<forall>it \<in> set (lt_requirements lt). important (rq_importance (item_row it)))"
proof -
  from longTerm_cases [OF assms] obtain d qv where
    dec: "lt_decisions lt = snapshot_items (pick s (as_items dc_id (select_decisions d)) qv ''decision'' None 3)"
    and req: "lt_requirements lt = snapshot_items (pick s (as_items rq_id (select_requirements d)) qv ''requirement'' None 3)"
    by blast
  show ?thesis
    unfolding dec req
    by (blast dest: item_row_snapshot_pick select_decisions_important select_requirements_important)
qed

text \<open>
  C2. The claim fails for milestones: their \<^verbatim>\<open>SELECT\<close> has no \<^verbatim>\<open>WHERE importance IN (...)\<close>,
  unlike those of decisions and requirements (lemma
  \<open>longTerm_decisions_requirements_important\<close>). A store with one milestone of importance
  \<^verbatim>\<open>low\<close>, asked for its context without a query, returns that milestone in
  \<^verbatim>\<open>longTerm.milestones\<close>.
\<close>

theorem longTerm_low_milestone_returned:
  "\<exists>lt. longTerm (getComprehensiveContext low_milestone_state JNull) = Some lt
     \<and> map (\<lambda>it. ms_importance (item_row it)) (lt_milestones lt) = [''low'']
     \<and> \<not> important ''low''"
proof -
  let ?d = "empty_db
        \<lparr>milestones := [\<lparr>ms_id = 1, ms_title = ''Setup'', ms_description = ''Project created'',
                          ms_importance = ''low'', ms_created_at = 1000\<rparr>]\<rparr>"
  have db: "db low_milestone_state = Some ?d"
    by (simp add: low_milestone_state_def)
  have nq: "\<not> truthy JNull" by simp
  show ?thesis
    unfolding getComprehensiveContext_no_query [OF db nq]
    by (simp add: empty_context_def select_milestones_def sort_desc_def snapshot_items_def
        as_items_def empty_db_def important_def)
qed

section \<open>Properties of the maintenance job\<close>

lemma delete_all_vectors:
  "delete_all rows d = d\<lparr>vectors := filter (\<lambda>v. v_id v \<notin> v_id ` set rows) (vectors d)\<rparr>"
proof (induction rows arbitrary: d)
  case Nil
  then show ?case by (simp add: delete_all_def)
next
  case (Cons r rows)
  have "delete_all (r # rows) d = delete_all rows (delete_vector (v_id r) d)"
    by (simp add: delete_all_def)
  also have "\<dots> = d\<lparr>vectors := filter (\<lambda>v. v_id v \<notin> v_id ` set (r # rows)) (vectors d)\<rparr>"
    unfolding Cons.IH by (auto simp: delete_vector_def intro: filter_cong)
  finally show ?case .
qed

lemma distinct_map_filter_mem:
  assumes "distinct (map f xs)" and "x \<in> set xs"
  shows "f x \<in> f ` set (filter P xs) \<longleftrightarrow> P x"
proof -
  have "inj_on f (set xs)" using assms(1) by (simp add: distinct_map)
  then show ?thesis using assms(2) by (auto dest: inj_onD)
qed

lemma delete_all_filter:
  assumes "distinct (map v_id (vectors d))"
  shows "delete_all (filter P (vectors d)) d = d\<lparr>vectors := filter (\<lambda>v. \<not> P v) (vectors d)\<rparr>"
proof -
  have "filter (\<lambda>v. v_id v \<notin> v_id ` set (filter P (vectors d))) (vectors d)
        = filter (\<lambda>v. \<not> P v) (vectors d)"
  proof (rule filter_cong [OF refl])
    fix x assume "x \<in> set (vectors d)"
    from distinct_map_filter_mem [OF assms this, of P]
    show "(v_id x \<notin> v_id ` set (filter P (vectors d))) = (\<not> P x)" by blast
  qed
  then show ?thesis by (simp add: delete_all_vectors)
qed

lemma clean_orphans_vectors:
  assumes "distinct (map v_id (vectors d))"
  shows "fst (clean_orphans d) = d\<lparr>vectors := filter (owner_exists d) (vectors d)\<rparr>"
proof -
  let ?o1 = "\<lambda>v. v_content_type v \<in> set message_types \<and> v_content_id v \<notin> set (map m_id (messages d))"
  let ?o2 = "\<lambda>v. v_content_type v = ''code_file'' \<and> v_content_id v \<notin> set (map cf_id (code_files d))"
  let ?o3 = "\<lambda>v. v_content_type v = ''code_snippet'' \<and> v_content_id v \<notin> set (map cs_id (code_snippets d))"
  let ?d1 = "d\<lparr>vectors := filter (\<lambda>v. \<not> ?o1 v) (vectors d)\<rparr>"
  let ?d2 = "d\<lparr>vectors := filter (\<lambda>v. \<not> ?o2 v) (filter (\<lambda>v. \<not> ?o1 v) (vectors d))\<rparr>"
  let ?d3 = "d\<lparr>vectors := filter (\<lambda>v. \<not> ?o3 v) (filter (\<lambda>v. \<not> ?o2 v) (filter (\<lambda>v. \<not> ?o1 v) (vectors d)))\<rparr>"
  have 1: "delete_all (orphanedMessageVectors d) d = ?d1"
    unfolding orphanedMessageVectors_def by (rule delete_all_filter [OF assms])
  have "distinct (map v_id (vectors ?d1))"
    using assms by (simp add: distinct_map_filter)
  from delete_all_filter [OF this, of ?o2]
  have 2: "delete_all (orphanedFileVectors ?d1) ?d1 = ?d2"
    by (simp add: orphanedFileVectors_def)
  have "distinct (map v_id (vectors ?d2))"
    using assms by (simp add: distinct_map_filter)
  from delete_all_filter [OF this, of ?o3]
  have 3: "delete_all (orphanedSnippetVectors ?d2) ?d2 = ?d3"
    by (simp add: orphanedSnippetVectors_def)
  have "fst (clean_orphans d) = ?d3"
    by (simp only: clean_orphans_def Let_def 1 2 3 fst_conv)
  moreover have "owner_exists d v = (\<not> ?o1 v \<and> \<not> ?o2 v \<and> \<not> ?o3 v)" for v
    by (auto simp: owner_exists_def message_types_def)
  then have "filter (\<lambda>v. \<not> ?o3 v) (filter (\<lambda>v. \<not> ?o2 v) (filter (\<lambda>v. \<not> ?o1 v) (vectors d)))
      = filter (owner_exists d) (vectors d)"
    unfolding filter_filter by (intro filter_cong refl) blast
  ultimately show ?thesis by (simp only:)
qed

lemma length_filter_key_le_1:
  "distinct (map f xs) \<Longrightarrow> length (filter (\<lambda>v. f v = k) xs) \<le> 1"
proof (induction xs)
  case Nil
  then show ?case by simp
next
  case (Cons a xs)
  show ?case
  proof (cases "f a = k")
    case True
    from Cons.prems have "f a \<notin> f ` set xs" by simp
    with True have "\<forall>x \<in> set xs. f x \<noteq> k" by blast
    then have "filter (\<lambda>v. f v = k) xs = []" by (simp add: filter_empty_conv)
    with True show ?thesis by simp
  next
    case False
    with Cons show ?thesis by simp
  qed
qed

lemma duplicates_distinct:
  assumes "distinct (map vector_key (vectors d))"
  shows "duplicates d = []"
proof -
  have "\<not> 1 < length (filter (\<lambda>v. vector_key v = k) (vectors d))" for k
    using length_filter_key_le_1 [OF assms, of k] by simp
  then show ?thesis by (simp add: duplicates_def)
qed

lemma optimize_storage_distinct:
  "distinct (map vector_key (vectors d)) \<Longrightarrow> optimize_storage d = (d, 0)"
  by (simp add: optimize_storage_def duplicates_distinct)


lemma performVectorMaintenance_defaults:
  assumes "db s = Some d" and "\<not> useInMemory s"
    and "distinct (map v_id (vectors d))"
    and "distinct (map vector_key (vectors d))"
  shows "performVectorMaintenance s defaults =
           (s\<lparr>db := Some (d\<lparr>vectors := filter (owner_exists d) (vectors d)\<rparr>)\<rparr>,
            \<lparr>indexesRebuilt = False, orphansRemoved = snd (clean_orphans d),
             vectorsOptimized = 0, errors = []\<rparr>)"
proof -
  let ?d2 = "d\<lparr>vectors := filter (owner_exists d) (vectors d)\<rparr>"
  obtain n where co: "clean_orphans d = (?d2, n)"
    using clean_orphans_vectors [OF assms(3)] by (cases "clean_orphans d") simp
  have "distinct (map vector_key (vectors ?d2))"
    using assms(4) by (simp add: distinct_map_filter)
  then have os: "optimize_storage ?d2 = (?d2, 0)"
    by (rule optimize_storage_distinct)
  show ?thesis
    using assms(1,2) by (simp add: performVectorMaintenance_def defaults_def co os)
qed

text \<open>
  C8. On an open database whose fingerprints have distinct row ids (the primary key) and at
  most one fingerprint per \<^verbatim>\<open>(content_id, content_type)\<close>, maintenance with the default
  options keeps exactly the fingerprints whose owner exists, in their order and unchanged,
  and changes no other table: every \<^verbatim>\<open>user_message\<close> or \<^verbatim>\<open>assistant_message\<close> fingerprint
  without its message row is gone, every fingerprint whose owning row exists, or whose
  content type has no owner table, is still there.
\<close>

theorem performVectorMaintenance_removes_orphans:
  assumes "db s = Some d" and "\<not> useInMemory s"
    and "distinct (map v_id (vectors d))"
    and "distinct (map vector_key (vectors d))"
  shows "\<exists>d' results. performVectorMaintenance s defaults = (s\<lparr>db := Some d'\<rparr>, results)
      \<and> d' = d\<lparr>vectors := vectors d'\<rparr>
      \<and> vectors d' = filter (owner_exists d) (vectors d)
      \<and> (\<forall>v \<in> set (vectors d).
            v_content_type v \<in> {''user_message'', ''assistant_message''}
            \<and> v_content_id v \<notin> set (map m_id (messages d))
            \<longrightarrow> v \<notin> set (vectors d'))
      \<and> (\<forall>v \<in> set (vectors d). owner_exists d v \<longrightarrow> v \<in> set (vectors d'))
      \<and> errors results = []"
proof -
  let ?d' = "d\<lparr>vectors := filter (owner_exists d) (vectors d)\<rparr>"
  have "\<not> owner_exists d v"
    if "v_content_type v \<in> {''user_message'', ''assistant_message''}"
      and "v_content_id v \<notin> set (map m_id (messages d))" for v
    using that by (auto simp: owner_exists_def message_types_def)
  then have gone: "\<forall>v \<in> set (vectors d).
            v_content_type v \<in> {''user_message'', ''assistant_message''}
            \<and> v_content_id v \<notin> set (map m_id (messages d))
            \<longrightarrow> v \<notin> set (vectors ?d')"
    by auto
  have kept: "\<forall>v \<in> set (vectors d). owner_exists d v \<longrightarrow> v \<in> set (vectors ?d')"
    by simp
  let ?results = "\<lparr>indexesRebuilt = False, orphansRemoved = snd (clean_orphans d),
             vectorsOptimized = 0, errors = []\<rparr>"
  have "performVectorMaintenance s defaults = (s\<lparr>db := Some ?d'\<rparr>, ?results)"
    by (rule performVectorMaintenance_defaults [OF assms])
  moreover have "?d' = d\<lparr>vectors := vectors ?d'\<rparr>" by simp
  moreover have "vectors ?d' = filter (owner_exists d) (vectors d)" by simp
  moreover have "errors ?results = []" by simp
  ultimately show ?thesis
    using gone kept by blast
qed

theorem performVectorMaintenance_removes_orphans_witness:
  "\<exists>d'. fst (performVectorMaintenance maintenance_state defaults) = \<lparr>db = Some d', useInMemory = False\<rparr>
     \<and> map v_id (vectors d') = [1, 3]
     \<and> messages d' = [message_at 7]"
proof -
  let ?d = "empty_db
        \<lparr>messages := [message_at 7],
         vectors :=
           [\<lparr>v_id = 1, v_content_id = 7, v_content_type = ''user_message'',
             v_vector = [0, 0, 128, 64, 0, 0, 64, 64],
             v_created_at = 7000, v_metadata = None\<rparr>,
            \<lparr>v_id = 2, v_content_id = 9, v_content_type = ''assistant_message'',
             v_vector = [0, 0, 128, 63, 0, 0, 0, 0],
             v_created_at = 9000, v_metadata = None\<rparr>,
            \<lparr>v_id = 3, v_content_id = 9, v_content_type = ''milestone'',
             v_vector = [0, 0, 0, 0, 0, 0, 128, 63],
             v_created_at = 9500, v_metadata = None\<rparr>,
            \<lparr>v_id = 4, v_content_id = 5, v_content_type = ''code_file'',
             v_vector = [0, 0, 128, 63, 0, 0, 128, 63],
             v_created_at = 9600, v_metadata = None\<rparr>],
         vectors_seq := 4\<rparr>"
  have db: "db maintenance_state = Some ?d" by (simp add: maintenance_state_def)
  have mem: "\<not> useInMemory maintenance_state" by (simp add: maintenance_state_def)
  have ids: "distinct (map v_id (vectors ?d))" by simp
  have keys: "distinct (map vector_key (vectors ?d))" by (simp add: vector_key_def)
  from performVectorMaintenance_removes_orphans [OF db mem ids keys]
  obtain d' results where
    run: "performVectorMaintenance maintenance_state defaults = (maintenance_state\<lparr>db := Some d'\<rparr>, results)"
    and frame: "d' = ?d\<lparr>vectors := vectors d'\<rparr>"
    and vs: "vectors d' = filter (owner_exists ?d) (vectors ?d)"
    by blast
  have "map v_id (filter (owner_exists ?d) (vectors ?d)) = [1, 3]"
    by (simp add: owner_exists_def message_types_def message_at_def empty_db_def)
  with vs have 1: "map v_id (vectors d') = [1, 3]" by simp
  have 2: "messages d' = [message_at 7]"
    by (subst frame) simp
  show ?thesis
    using run 1 2 by (simp add: maintenance_state_def)
qed

section \<open>Properties of \<^verbatim>\<open>manageVector\<close>\<close>

lemma manageVector_update_absent:
  assumes "a_operation args = Some ''update''"
    and "\<forall>d. db s = Some d \<longrightarrow> (\<forall>v \<in> set (vectors d). Some (v_id v) \<noteq> a_vectorId args)"
  shows "fst (manageVector s now args) = s \<and> isError (snd (manageVector s now args))"
    and "\<not> useInMemory s \<Longrightarrow> db s \<noteq> None \<Longrightarrow> a_vectorId args = Some vid \<Longrightarrow> vid \<noteq> 0
         \<Longrightarrow> a_vector args = VectorArray xs
         \<Longrightarrow> snd (manageVector s now args) = failed (VectorNotFound vid)"
proof -
  have nf: "find (\<lambda>v. v_id v = the (a_vectorId args)) (vectors d) = None"
    if "db s = Some d" "\<not> missing_id (a_vectorId args)" for d
  proof -
    from that(2) obtain vid where "a_vectorId args = Some vid" by (cases "a_vectorId args") auto
    with assms(2) that(1) show ?thesis by (simp add: find_None_iff)
  qed
  show "fst (manageVector s now args) = s \<and> isError (snd (manageVector s now args))"
    using assms(1) nf
    by (auto simp: manageVector_def Let_def failed_def split: vector_arg.splits option.splits)
  show "snd (manageVector s now args) = failed (VectorNotFound vid)"
    if "\<not> useInMemory s" "db s \<noteq> None" "a_vectorId args = Some vid" "vid \<noteq> 0"
      "a_vector args = VectorArray xs"
    using that assms(1) nf by (auto simp: manageVector_def Let_def)
qed

lemma manageVector_delete_absent:
  assumes "a_operation args = Some ''delete''"
    and "\<forall>d. db s = Some d \<longrightarrow> (\<forall>v \<in> set (vectors d). Some (v_id v) \<noteq> a_vectorId args)"
  shows "fst (manageVector s now args) = s \<and> isError (snd (manageVector s now args))"
    and "\<not> useInMemory s \<Longrightarrow> db s \<noteq> None \<Longrightarrow> a_vectorId args = Some vid \<Longrightarrow> vid \<noteq> 0
         \<Longrightarrow> snd (manageVector s now args) = failed (VectorNotFound vid)"
proof -
  have nf: "find (\<lambda>v. v_id v = the (a_vectorId args)) (vectors d) = None"
    if "db s = Some d" "\<not> missing_id (a_vectorId args)" for d
  proof -
    from that(2) obtain vid where "a_vectorId args = Some vid" by (cases "a_vectorId args") auto
    with assms(2) that(1) show ?thesis by (simp add: find_None_iff)
  qed
  show "fst (manageVector s now args) = s \<and> isError (snd (manageVector s now args))"
    using assms(1) nf
    by (auto simp: manageVector_def Let_def failed_def split: option.splits)
  show "snd (manageVector s now args) = failed (VectorNotFound vid)"
    if "\<not> useInMemory s" "db s \<noteq> None" "a_vectorId args = Some vid" "vid \<noteq> 0"
    using that assms(1) nf by (auto simp: manageVector_def Let_def)
qed

lemma manageVector_delete_existing:
  assumes "db s = Some d" and "\<not> useInMemory s"
    and "a_operation args = Some ''delete''" and "a_vectorId args = Some vid" and "vid \<noteq> 0"
    and "v \<in> set (vectors d)" and "v_id v = vid" and "distinct (map v_id (vectors d))"
  shows "manageVector s now args =
           (s\<lparr>db := Some (d\<lparr>vectors := filter (\<lambda>w. w \<noteq> v) (vectors d)\<rparr>)\<rparr>,
            ok (DeleteOk vid True now))"
proof -
  have "find (\<lambda>w. v_id w = vid) (vectors d) \<noteq> None"
    using assms(6,7) by (auto simp: find_None_iff)
  then obtain e where e: "find (\<lambda>w. v_id w = vid) (vectors d) = Some e" by auto
  have "inj_on v_id (set (vectors d))" using assms(8) by (simp add: distinct_map)
  then have "filter (\<lambda>w. v_id w \<noteq> vid) (vectors d) = filter (\<lambda>w. w \<noteq> v) (vectors d)"
    using assms(6,7) by (intro filter_cong refl) (auto dest: inj_onD)
  then show ?thesis
    using assms(1-5) e by (simp add: manageVector_def)
qed


text \<open>
  C9, amended. For every \<^verbatim>\<open>vectorId\<close> without a row in \<^verbatim>\<open>vectors\<close>, \<^verbatim>\<open>update\<close> and \<^verbatim>\<open>delete\<close>
  answer with an error (\<^verbatim>\<open>isError: true\<close>) and leave the state as it is; the error is the
  not-found error when the request passes the checks that come first: database mode, a
  non-zero \<^verbatim>\<open>vectorId\<close> and, for \<^verbatim>\<open>update\<close>, a \<^verbatim>\<open>vector\<close> that is an array. For a non-zero
  \<^verbatim>\<open>vectorId\<close> with a row, \<^verbatim>\<open>delete\<close> removes exactly that row and reports
  \<^verbatim>\<open>deleted: true\<close>.
\<close>

theorem manageVector_absent_or_deleted:
  "(a_operation args = Some ''update'' \<or> a_operation args = Some ''delete'' \<longrightarrow>
      (\<forall>d'. db s = Some d' \<longrightarrow> (\<forall>w \<in> set (vectors d'). Some (v_id w) \<noteq> a_vectorId args)) \<longrightarrow>
        fst (manageVector s now args) = s
        \<and> isError (snd (manageVector s now args))
        \<and> (\<not> useInMemory s \<and> db s \<noteq> None \<and> a_vectorId args = Some vid \<and> vid \<noteq> 0
             \<and> (a_operation args = Some ''update'' \<longrightarrow> (\<exists>xs. a_vector args = VectorArray xs))
            \<longrightarrow> snd (manageVector s now args) = failed (VectorNotFound vid)))
   \<and> (db s = Some d \<and> \<not> useInMemory s \<and> a_operation args = Some ''delete''
        \<and> a_vectorId args = Some vid \<and> vid \<noteq> 0
        \<and> v \<in> set (vectors d) \<and> v_id v = vid \<and> distinct (map v_id (vectors d)) \<longrightarrow>
          manageVector s now args =
            (s\<lparr>db := Some (d\<lparr>vectors := filter (\<lambda>w. w \<noteq> v) (vectors d)\<rparr>)\<rparr>,
             ok (DeleteOk vid True now)))"
proof (intro conjI impI)
  assume op: "a_operation args = Some ''update'' \<or> a_operation args = Some ''delete''"
    and absent: "\<forall>d'. db s = Some d' \<longrightarrow> (\<forall>w \<in> set (vectors d'). Some (v_id w) \<noteq> a_vectorId args)"
  from op absent show "fst (manageVector s now args) = s"
    using manageVector_update_absent(1) manageVector_delete_absent(1) by blast
  from op absent show "isError (snd (manageVector s now args))"
    using manageVector_update_absent(1) manageVector_delete_absent(1) by blast
  assume valid: "\<not> useInMemory s \<and> db s \<noteq> None \<and> a_vectorId args = Some vid \<and> vid \<noteq> 0
     \<and> (a_operation args = Some ''update'' \<longrightarrow> (\<exists>xs. a_vector args = VectorArray xs))"
  from op show "snd (manageVector s now args) = failed (VectorNotFound vid)"
  proof
    assume u: "a_operation args = Some ''update''"
    with valid obtain xs where "a_vector args = VectorArray xs" by blast
    then show ?thesis
      using manageVector_update_absent(2) [OF u absent] valid by blast
  next
    assume "a_operation args = Some ''delete''"
    then show ?thesis
      using manageVector_delete_absent(2) [OF _ absent] valid by blast
  qed
next
  assume "db s = Some d \<and> \<not> useInMemory s \<and> a_operation args = Some ''delete''
        \<and> a_vectorId args = Some vid \<and> vid \<noteq> 0
        \<and> v \<in> set (vectors d) \<and> v_id v = vid \<and> distinct (map v_id (vectors d))"
  then show "manageVector s now args =
            (s\<lparr>db := Some (d\<lparr>vectors := filter (\<lambda>w. w \<noteq> v) (vectors d)\<rparr>)\<rparr>,
             ok (DeleteOk vid True now))"
    using manageVector_delete_existing by blast
qed

theorem manageVector_absent_or_deleted_witness:
  "manageVector maintenance_state 5000 (delete_args 9) = (maintenance_state, failed (VectorNotFound 9))
   \<and> snd (manageVector maintenance_state 5000 (delete_args 2)) = ok (DeleteOk 2 True 5000)
   \<and> (\<exists>d'. db (fst (manageVector maintenance_state 5000 (delete_args 2))) = Some d'
          \<and> map v_id (vectors d') = [1, 3, 4])"
proof -
  let ?v = "\<lparr>v_id = 2, v_content_id = 9, v_content_type = ''assistant_message'',
             v_vector = [0, 0, 128, 63, 0, 0, 0, 0],
             v_created_at = 9000, v_metadata = None\<rparr>"
  obtain d where d: "db maintenance_state = Some d" and ids: "map v_id (vectors d) = [1, 2, 3, 4]"
    and v: "?v \<in> set (vectors d)"
    by (simp add: maintenance_state_def)
  have mem: "\<not> useInMemory maintenance_state" by (simp add: maintenance_state_def)
  have absent: "\<forall>d'. db maintenance_state = Some d' \<longrightarrow>
      (\<forall>w \<in> set (vectors d'). Some (v_id w) \<noteq> a_vectorId (delete_args 9))"
    by (simp add: maintenance_state_def delete_args_def)
  have dist: "distinct (map v_id (vectors d))" using ids by simp
  note thm9 = manageVector_absent_or_deleted
      [of "delete_args 9" maintenance_state 5000 9 d ?v]
  note thm2 = manageVector_absent_or_deleted
      [of "delete_args 2" maintenance_state 5000 2 d ?v]
  have 1: "manageVector maintenance_state 5000 (delete_args 9)
           = (maintenance_state, failed (VectorNotFound 9))"
    using thm9 absent mem d by (intro prod_eqI) (simp_all add: delete_args_def)
  have 2: "manageVector maintenance_state 5000 (delete_args 2) =
            (maintenance_state\<lparr>db := Some (d\<lparr>vectors := filter (\<lambda>w. w \<noteq> ?v) (vectors d)\<rparr>)\<rparr>,
             ok (DeleteOk 2 True 5000))"
    using thm2 d mem v dist by (simp add: delete_args_def)
  have "map v_id (filter (\<lambda>w. w \<noteq> ?v) (vectors d)) = [1, 3, 4]"
    using d by (auto simp: maintenance_state_def)
  with 1 2 show ?thesis by simp
qed

text \<open>
  C9, as stated, fails: the checks on the arguments come before the look-up. On an empty
  table, \<^verbatim>\<open>delete\<close> of \<^verbatim>\<open>vectorId\<close> 0 answers \<^verbatim>\<open>vectorId is required for delete operation\<close>, and
  \<^verbatim>\<open>update\<close> of \<^verbatim>\<open>vectorId\<close> 9 without a vector answers \<^verbatim>\<open>vectorId and vector are required for
  update operation\<close>; neither is the not-found error.
\<close>

theorem manageVector_not_found_counterexample:
  "find (\<lambda>v. v_id v = 0) (vectors empty_db) = None
   \<and> manageVector empty_state 5000 (delete_args 0) = (empty_state, failed DeleteArgsRequired)
   \<and> find (\<lambda>v. v_id v = 9) (vectors empty_db) = None
   \<and> manageVector empty_state 5000 (update_args 9) = (empty_state, failed UpdateArgsRequired)
   \<and> failed DeleteArgsRequired \<noteq> failed (VectorNotFound 0)
   \<and> failed UpdateArgsRequired \<noteq> failed (VectorNotFound 9)"
  by (simp add: manageVector_def empty_state_def empty_db_def delete_args_def update_args_def
      failed_def)

section \<open>Properties of the dispatcher\<close>

text \<open>
  C10, amended. \<^verbatim>\<open>storeAssistantMessage\<close> is among the advertised tools and the dispatcher
  has no case for it: a call with an arguments object reaches the \<^verbatim>\<open>default\<close> branch and is
  answered with \<^verbatim>\<open>Unknown tool: storeAssistantMessage\<close>, a call without arguments is stopped
  by the guard before the \<^verbatim>\<open>switch\<close> and answered with \<^verbatim>\<open>No arguments provided\<close>. Either way
  \<^verbatim>\<open>isError\<close> is true and the state, hence the messages table, is unchanged, whatever the
  other handlers do.
\<close>

theorem storeAssistantMessage_unhandled:
  "call_tool other s now ''storeAssistantMessage'' args =
     (s, failed (case args of
                   None \<Rightarrow> NoArgumentsProvided
                 | Some a \<Rightarrow> UnknownTool ''storeAssistantMessage''))
   \<and> isError (snd (call_tool other s now ''storeAssistantMessage'' args))
   \<and> ''storeAssistantMessage'' \<in> set tool_names"
  by (cases args) (simp_all add: call_tool_def noArgsTools_def other_cases_def tool_names_def
      failed_def)

text \<open>
  C10, as stated, fails for a call that carries no arguments: it does not reach the
  \<^verbatim>\<open>default\<close> branch, and its error is not the unknown-tool error.
\<close>

theorem storeAssistantMessage_no_arguments_counterexample:
  "call_tool no_handlers empty_state 5000 ''storeAssistantMessage'' None =
     (empty_state, failed NoArgumentsProvided)
   \<and> failed NoArgumentsProvided \<noteq> failed (UnknownTool ''storeAssistantMessage'')"
  by (simp add: call_tool_def noArgsTools_def failed_def)

end
